theory Spec2Isabelle
  imports Complex_Main
begin

section \<open>Sand dune simulation: the terrain and particle core of SandDunes/index.html\<close>

text \<open>
  The script keeps its state in module-level variables and mutates them in place; the
  model passes that state explicitly. JavaScript numbers are modelled as exact reals
  (\<^typ>\<open>real\<close>): there is no rounding, no \<^verbatim>\<open>NaN\<close> and no \<^verbatim>\<open>Infinity\<close>.
  Array indices computed with \<^verbatim>\<open>Math.floor\<close> are integers, loop counters over array
  lengths are naturals. The rendering (scene, camera, meshes, arrows) is left out: it
  reads the state and never writes it.
\<close>

subsection \<open>Constants\<close>

text \<open>
  The grid geometry constants of the script. They are named constants there
  (\<^verbatim>\<open>TERRAIN_WIDTH = 600\<close>, \<^verbatim>\<open>TERRAIN_DEPTH = 200\<close>,
  \<^verbatim>\<open>TERRAIN_RESOLUTION = 100\<close>, \<^verbatim>\<open>FALLOFF_RADIUS = 3\<close>); the model takes
  them as a record so that statements hold for every geometry, and
  \<open>source_constants\<close> holds the values of the script.
\<close>

record constants =
  TERRAIN_WIDTH :: real
  TERRAIN_DEPTH :: real
  TERRAIN_RESOLUTION :: nat
  FALLOFF_RADIUS :: nat

definition source_constants :: constants where
  "source_constants =
     \<lparr>TERRAIN_WIDTH = 600, TERRAIN_DEPTH = 200, TERRAIN_RESOLUTION = 100, FALLOFF_RADIUS = 3\<rparr>"

definition HALF_TERRAIN_WIDTH :: "constants \<Rightarrow> real" where
  "HALF_TERRAIN_WIDTH k = TERRAIN_WIDTH k / 2"

definition HALF_TERRAIN_DEPTH :: "constants \<Rightarrow> real" where
  "HALF_TERRAIN_DEPTH k = TERRAIN_DEPTH k / 2"

definition GRID_SIZE_X :: "constants \<Rightarrow> real" where
  "GRID_SIZE_X k = TERRAIN_WIDTH k / real (TERRAIN_RESOLUTION k)"

definition GRID_SIZE_Z :: "constants \<Rightarrow> real" where
  "GRID_SIZE_Z k = TERRAIN_DEPTH k / real (TERRAIN_RESOLUTION k)"

definition FALLOFF_STRENGTH :: real where
  "FALLOFF_STRENGTH = 1.0"

definition ANGLE_OF_REPOSE :: real where
  "ANGLE_OF_REPOSE = tan (30 * pi / 180)"

definition TERRAIN_SMOOTHING :: real where
  "TERRAIN_SMOOTHING = 0.3"

text \<open>
  A configuration is valid when its sizes are positive (the script's are). With a zero
  size the script would divide by zero, which JavaScript answers with \<^verbatim>\<open>Infinity\<close>
  or \<^verbatim>\<open>NaN\<close> and the reals with 0; statements about computed heights assume a valid
  configuration.
\<close>

definition valid_constants :: "constants \<Rightarrow> bool" where
  "valid_constants k \<longleftrightarrow>
     0 < TERRAIN_WIDTH k \<and> 0 < TERRAIN_DEPTH k \<and> 0 < TERRAIN_RESOLUTION k \<and> 0 < FALLOFF_RADIUS k"

subsection \<open>The heightmap\<close>

text \<open>
  \<^verbatim>\<open>heightmap\<close> is an array of rows, each an array of numbers:
  \<^verbatim>\<open>heightmap[i][j]\<close>. \<^verbatim>\<open>initTerrain\<close> builds it with
  \<^verbatim>\<open>TERRAIN_RESOLUTION + 1\<close> rows of \<^verbatim>\<open>TERRAIN_RESOLUTION + 1\<close> cells.
\<close>

type_synonym heightmap = "real list list"

definition cell :: "heightmap \<Rightarrow> nat \<Rightarrow> nat \<Rightarrow> real" where
  "cell hm i j = hm ! i ! j"

definition set_cell :: "nat \<Rightarrow> nat \<Rightarrow> real \<Rightarrow> heightmap \<Rightarrow> heightmap" where
  "set_cell i j v hm = hm[i := (hm ! i)[j := v]]"

definition rectangular :: "heightmap \<Rightarrow> bool" where
  "rectangular hm \<longleftrightarrow> hm \<noteq> [] \<and> list_all (\<lambda>row. length row = length (hd hm)) hm"

definition wf_heightmap :: "constants \<Rightarrow> heightmap \<Rightarrow> bool" where
  "wf_heightmap k hm \<longleftrightarrow>
     length hm = TERRAIN_RESOLUTION k + 1 \<and>
     list_all (\<lambda>row. length row = TERRAIN_RESOLUTION k + 1) hm"

definition total_mass :: "heightmap \<Rightarrow> real" where
  "total_mass hm = sum_list (map sum_list hm)"

subsection \<open>Avalanche pass (checkTransfer, applyAvalanche)\<close>

datatype error = TypeError

text \<open>
  \<^verbatim>\<open>
  function checkTransfer(row, col, nRow, nCol) {
      const diff = heightmap[row][col] - heightmap[nRow][nCol];
      if (diff > ANGLE_OF_REPOSE) {
          const t = (diff - ANGLE_OF_REPOSE) * 0.5;
          heightmap[row][col] -= t;
          heightmap[nRow][nCol] += t;
      }
  }\<close>
  The second assignment reads the array the first one has already written.
\<close>

definition checkTransfer :: "nat \<Rightarrow> nat \<Rightarrow> nat \<Rightarrow> nat \<Rightarrow> heightmap \<Rightarrow> heightmap" where
  "checkTransfer row col nRow nCol hm =
     (let diff = cell hm row col - cell hm nRow nCol in
      if diff > ANGLE_OF_REPOSE then
        (let t = (diff - ANGLE_OF_REPOSE) * 0.5;
             hm1 = set_cell row col (cell hm row col - t) hm;
             hm2 = set_cell nRow nCol (cell hm1 nRow nCol + t) hm1
         in hm2)
      else hm)"

text \<open>
  The inner loop of \<^verbatim>\<open>applyAvalanche\<close>:
  \<^verbatim>\<open>for (let col = 1; col < numCols - 1; col++)\<close> with the four calls of
  \<^verbatim>\<open>checkTransfer\<close> in the order of the source. \<open>numCols - 1\<close> is the truncated
  subtraction of naturals; for \<open>numCols = 0\<close> neither it nor JavaScript's \<open>-1\<close>
  admits \<open>col = 1\<close>.
\<close>

function avalanche_cols :: "nat \<Rightarrow> nat \<Rightarrow> nat \<Rightarrow> heightmap \<Rightarrow> heightmap" where
  "avalanche_cols numCols row col hm =
     (if col < numCols - 1 then
        avalanche_cols numCols row (col + 1)
          (checkTransfer row col row (col + 1)
            (checkTransfer row col row (col - 1)
              (checkTransfer row col (row + 1) col
                (checkTransfer row col (row - 1) col hm))))
      else hm)"
  by pat_completeness auto
termination
  by (relation "measure (\<lambda>(numCols, row, col, hm). numCols - 1 - col)") auto

text \<open>The outer loop: \<^verbatim>\<open>for (let row = 1; row < numRows - 1; row++)\<close>.\<close>

function avalanche_rows :: "nat \<Rightarrow> nat \<Rightarrow> nat \<Rightarrow> heightmap \<Rightarrow> heightmap" where
  "avalanche_rows numRows numCols row hm =
     (if row < numRows - 1 then
        avalanche_rows numRows numCols (row + 1) (avalanche_cols numCols row 1 hm)
      else hm)"
  by pat_completeness auto
termination
  by (relation "measure (\<lambda>(numRows, numCols, row, hm). numRows - 1 - row)") auto

declare avalanche_cols.simps [simp del] avalanche_rows.simps [simp del]

text \<open>
  \<^verbatim>\<open>applyAvalanche\<close> reads \<^verbatim>\<open>heightmap.length\<close> and
  \<^verbatim>\<open>heightmap[0].length\<close>; on an empty array the latter raises a TypeError.
\<close>

definition applyAvalanche :: "heightmap \<Rightarrow> error + heightmap" where
  "applyAvalanche hm =
     (case hm of
        [] \<Rightarrow> Inl TypeError
      | row0 # _ \<Rightarrow> Inr (avalanche_rows (length hm) (length row0) 1 hm))"

text \<open>
  The pass as the specification words it: the interior cells in row-major order, for
  each the neighbours above, below, left and right in that order, each comparison on the
  heights as they are at that moment, each transfer of \<open>t = (diff - A) * 0.5\<close> taken from
  the cell and given to the neighbour.
\<close>

datatype direction = Above | Below | Left | Right

fun neighbour :: "nat \<times> nat \<Rightarrow> direction \<Rightarrow> nat \<times> nat" where
  "neighbour (row, col) Above = (row - 1, col)"
| "neighbour (row, col) Below = (row + 1, col)"
| "neighbour (row, col) Left = (row, col - 1)"
| "neighbour (row, col) Right = (row, col + 1)"

definition transfer :: "nat \<times> nat \<Rightarrow> nat \<times> nat \<Rightarrow> real \<Rightarrow> heightmap \<Rightarrow> heightmap" where
  "transfer c n t hm =
     set_cell (fst n) (snd n) (cell hm (fst n) (snd n) + t)
       (set_cell (fst c) (snd c) (cell hm (fst c) (snd c) - t) hm)"

definition relax_neighbour :: "nat \<times> nat \<Rightarrow> direction \<Rightarrow> heightmap \<Rightarrow> heightmap" where
  "relax_neighbour c d hm =
     (let n = neighbour c d;
          diff = cell hm (fst c) (snd c) - cell hm (fst n) (snd n)
      in if diff > ANGLE_OF_REPOSE then transfer c n ((diff - ANGLE_OF_REPOSE) * 0.5) hm else hm)"

definition relax_cell :: "nat \<times> nat \<Rightarrow> heightmap \<Rightarrow> heightmap" where
  "relax_cell c hm = fold (relax_neighbour c) [Above, Below, Left, Right] hm"

definition interior_cells :: "heightmap \<Rightarrow> (nat \<times> nat) list" where
  "interior_cells hm = List.product [1..<length hm - 1] [1..<length (hd hm) - 1]"

definition avalanche_pass :: "heightmap \<Rightarrow> heightmap" where
  "avalanche_pass hm = fold relax_cell (interior_cells hm) hm"

subsection \<open>Painting and querying the terrain (updateTerrainAtPoint, getTerrainHeight)\<close>

text \<open>
  Both functions start by converting world coordinates to heightmap indices:
  \<^verbatim>\<open>
  const i = Math.floor((x + HALF_TERRAIN_WIDTH) / GRID_SIZE_X);
  const j = Math.floor((z + HALF_TERRAIN_DEPTH) / GRID_SIZE_Z);\<close>
  and test them with
  \<^verbatim>\<open>i >= 0 && i < TERRAIN_RESOLUTION + 1 && j >= 0 && j < TERRAIN_RESOLUTION + 1\<close>.
\<close>

definition grid_i :: "constants \<Rightarrow> real \<Rightarrow> int" where
  "grid_i k x = \<lfloor>(x + HALF_TERRAIN_WIDTH k) / GRID_SIZE_X k\<rfloor>"

definition grid_j :: "constants \<Rightarrow> real \<Rightarrow> int" where
  "grid_j k z = \<lfloor>(z + HALF_TERRAIN_DEPTH k) / GRID_SIZE_Z k\<rfloor>"

definition in_grid :: "constants \<Rightarrow> int \<Rightarrow> int \<Rightarrow> bool" where
  "in_grid k i j \<longleftrightarrow>
     i \<ge> 0 \<and> i < int (TERRAIN_RESOLUTION k) + 1 \<and> j \<ge> 0 \<and> j < int (TERRAIN_RESOLUTION k) + 1"

text \<open>
  The body of the brush loops of \<^verbatim>\<open>updateTerrainAtPoint\<close>:
  \<^verbatim>\<open>
  const ni = i + di;
  const nj = j + dj;
  if (ni >= 0 && ni < TERRAIN_RESOLUTION + 1 && nj >= 0 && nj < TERRAIN_RESOLUTION + 1) {
      const distance = Math.sqrt(di * di + dj * dj);
      const falloff = 1 - Math.min(distance / FALLOFF_RADIUS, 1);
      heightmap[ni][nj] += height * FALLOFF_STRENGTH * falloff;
  }\<close>
\<close>

definition paint_cell :: "constants \<Rightarrow> int \<Rightarrow> int \<Rightarrow> real \<Rightarrow> int \<Rightarrow> int \<Rightarrow> heightmap \<Rightarrow> heightmap" where
  "paint_cell k i j height di dj hm =
     (let ni = i + di; nj = j + dj in
      if in_grid k ni nj then
        (let distance = sqrt (real_of_int (di * di + dj * dj));
             falloff = 1 - min (distance / real (FALLOFF_RADIUS k)) 1
         in set_cell (nat ni) (nat nj)
              (cell hm (nat ni) (nat nj) + height * FALLOFF_STRENGTH * falloff) hm)
      else hm)"

text \<open>\<^verbatim>\<open>for (let dj = -FALLOFF_RADIUS; dj <= FALLOFF_RADIUS; dj++)\<close>\<close>

function paint_dj :: "constants \<Rightarrow> int \<Rightarrow> int \<Rightarrow> real \<Rightarrow> int \<Rightarrow> int \<Rightarrow> heightmap \<Rightarrow> heightmap" where
  "paint_dj k i j height di dj hm =
     (if dj \<le> int (FALLOFF_RADIUS k)
      then paint_dj k i j height di (dj + 1) (paint_cell k i j height di dj hm)
      else hm)"
  by pat_completeness auto
termination
  by (relation "measure (\<lambda>(k, i, j, height, di, dj, hm). nat (int (FALLOFF_RADIUS k) + 1 - dj))") auto

text \<open>\<^verbatim>\<open>for (let di = -FALLOFF_RADIUS; di <= FALLOFF_RADIUS; di++)\<close>\<close>

function paint_di :: "constants \<Rightarrow> int \<Rightarrow> int \<Rightarrow> real \<Rightarrow> int \<Rightarrow> heightmap \<Rightarrow> heightmap" where
  "paint_di k i j height di hm =
     (if di \<le> int (FALLOFF_RADIUS k)
      then paint_di k i j height (di + 1)
             (paint_dj k i j height di (- int (FALLOFF_RADIUS k)) hm)
      else hm)"
  by pat_completeness auto
termination
  by (relation "measure (\<lambda>(k, i, j, height, di, hm). nat (int (FALLOFF_RADIUS k) + 1 - di))") auto

declare paint_dj.simps [simp del] paint_di.simps [simp del]

text \<open>The amount the loop body adds to the cell at offset \<open>(di, dj)\<close> from the centre.\<close>

definition brush_delta :: "constants \<Rightarrow> real \<Rightarrow> int \<Rightarrow> int \<Rightarrow> real" where
  "brush_delta k height di dj =
     height * FALLOFF_STRENGTH *
       (1 - min (sqrt (real_of_int (di * di + dj * dj)) / real (FALLOFF_RADIUS k)) 1)"

definition updateTerrainAtPoint :: "constants \<Rightarrow> real \<Rightarrow> real \<Rightarrow> real \<Rightarrow> heightmap \<Rightarrow> heightmap" where
  "updateTerrainAtPoint k x z height hm =
     (let i = grid_i k x; j = grid_j k z in
      if in_grid k i j then paint_di k i j height (- int (FALLOFF_RADIUS k)) hm else hm)"

text \<open>
  \<^verbatim>\<open>
  function getTerrainHeight(x, z) {
      const i = ...; const j = ...;
      if (i < 0 || i >= TERRAIN_RESOLUTION + 1 || j < 0 || j >= TERRAIN_RESOLUTION + 1) {
          return 0;
      }
      return heightmap[i][j];
  }\<close>
\<close>

definition getTerrainHeight :: "constants \<Rightarrow> heightmap \<Rightarrow> real \<Rightarrow> real \<Rightarrow> real" where
  "getTerrainHeight k hm x z =
     (let i = grid_i k x; j = grid_j k z in
      if i < 0 \<or> i \<ge> int (TERRAIN_RESOLUTION k) + 1 \<or> j < 0 \<or> j \<ge> int (TERRAIN_RESOLUTION k) + 1
      then 0
      else cell hm (nat i) (nat j))"

text \<open>
  \<^verbatim>\<open>smoothTerrain\<close> builds a new heightmap: each cell becomes the average of its
  in-grid 3 by 3 neighbourhood (itself included) times \<^verbatim>\<open>TERRAIN_SMOOTHING\<close> plus
  its old height times \<^verbatim>\<open>1 - TERRAIN_SMOOTHING\<close>. The two inner loops visit
  \<open>di\<close> and \<open>dj\<close> from -1 to 1.
\<close>

definition smooth_cell :: "constants \<Rightarrow> heightmap \<Rightarrow> int \<Rightarrow> int \<Rightarrow> real" where
  "smooth_cell k hm i j =
     (let inside = filter (\<lambda>(ni, nj). in_grid k ni nj)
                     (List.product (map (\<lambda>di. i + di) [-1..1]) (map (\<lambda>dj. j + dj) [-1..1]));
          sum = sum_list (map (\<lambda>(ni, nj). cell hm (nat ni) (nat nj)) inside);
          count = length inside
      in sum / real count * TERRAIN_SMOOTHING + cell hm (nat i) (nat j) * (1 - TERRAIN_SMOOTHING))"

definition smoothTerrain :: "constants \<Rightarrow> heightmap \<Rightarrow> heightmap" where
  "smoothTerrain k hm =
     map (\<lambda>i. map (\<lambda>j. smooth_cell k hm (int i) (int j)) [0..<TERRAIN_RESOLUTION k + 1])
       [0..<TERRAIN_RESOLUTION k + 1]"

text \<open>The heightmap \<^verbatim>\<open>initTerrain\<close> starts from: every cell 0.\<close>

definition flat_heightmap :: "constants \<Rightarrow> heightmap" where
  "flat_heightmap k = replicate (TERRAIN_RESOLUTION k + 1) (replicate (TERRAIN_RESOLUTION k + 1) 0)"

text \<open>
  The weight the specification gives a cell at Euclidean grid distance \<open>dist\<close> from the
  brush centre: \<open>max(0, 1 - dist / Rb)\<close>.
\<close>

definition grid_distance :: "int \<Rightarrow> int \<Rightarrow> nat \<Rightarrow> nat \<Rightarrow> real" where
  "grid_distance i j a b = sqrt (real_of_int ((int a - i) * (int a - i) + (int b - j) * (int b - j)))"

definition brush_weight :: "constants \<Rightarrow> real \<Rightarrow> real" where
  "brush_weight k d = max 0 (1 - d / real (FALLOFF_RADIUS k))"

subsection \<open>Particles and the simulation state\<close>

definition WIND_UPDATE_INTERVAL :: real where "WIND_UPDATE_INTERVAL = 0.1"
definition WIND_STRENGTH :: real where "WIND_STRENGTH = 2.0"
definition WIND_SPAWN_RATE :: nat where "WIND_SPAWN_RATE = 10"
definition WIND_TTL :: real where "WIND_TTL = 5"
definition EROSION_RATE :: real where "EROSION_RATE = 0.02"
definition MAX_WIND_PARTICLES :: nat where "MAX_WIND_PARTICLES = 200"
definition WIND_POOL_SIZE :: nat where "WIND_POOL_SIZE = 100"
definition DUNE_BASE_SCALE :: real where "DUNE_BASE_SCALE = 1.5"
definition DUNE_HEIGHT_SCALE :: real where "DUNE_HEIGHT_SCALE = 1.0"
definition DUNE_WIDTH_SCALE :: real where "DUNE_WIDTH_SCALE = 1.2"
definition SAND_TTL :: real where "SAND_TTL = 10"
definition SAND_SPAWN_RATE :: nat where "SAND_SPAWN_RATE = 20"
definition SAND_SPAWN_SPREAD :: real where "SAND_SPAWN_SPREAD = 1.0"
definition SAND_ANGLE_SPREAD :: real where "SAND_ANGLE_SPREAD = pi / 8"
definition SAND_PARTICLE_SIZE :: real where "SAND_PARTICLE_SIZE = 0.1"
definition MAX_SAND_PARTICLES :: nat where "MAX_SAND_PARTICLES = 1000"

text \<open>
  \<open>WIND_POOL_SIZE\<close> names the literal \<^verbatim>\<open>100\<close> of the loop in \<^verbatim>\<open>init\<close> that
  creates the wind particles; the script declares \<^verbatim>\<open>MAX_WIND_PARTICLES = 200\<close> and
  never reads it.

  A particle is a mesh of which the simulation uses the position, the velocity, the
  remaining life and the visibility flag. \<^verbatim>\<open>life\<close> is not set before a particle is
  first spawned and is only read on visible particles; it starts as 0 here.
\<close>

record particle =
  pos_x :: real
  pos_y :: real
  pos_z :: real
  vel_x :: real
  vel_y :: real
  vel_z :: real
  life :: real
  visible :: bool

record dune =
  dune_x :: real
  dune_z :: real
  dune_height :: real
  dune_baseScale :: real
  dune_heightScale :: real
  dune_widthScale :: real

text \<open>
  \<^verbatim>\<open>Math.random()\<close> is modelled by the sequence of values it is going to return:
  \<open>r 0\<close> is the next one, and \<open>advance n r\<close> is the sequence after \<open>n\<close> calls.
\<close>

type_synonym rng = "nat \<Rightarrow> real"

definition advance :: "nat \<Rightarrow> rng \<Rightarrow> rng" where
  "advance n r = (\<lambda>m. r (m + n))"

text \<open>
  The module-level variables of the script (those the simulation reads or writes).
  \<open>sandAmount\<close> is declared with the comment \<^verbatim>\<open>Total number of sand grains\<close>; its
  slider writes it and no function reads it.
\<close>

record sim =
  isSimulating :: bool
  timeAccumulator :: real
  windSpeed :: real
  windDirection :: real
  windParticles :: "particle list"
  duneHeight :: real
  duneCount :: nat
  heightmap :: heightmap
  dunes :: "dune list"
  sandPool :: "particle list"
  sandAmount :: int
  rand :: rng

definition active_count :: "particle list \<Rightarrow> nat" where
  "active_count pool = length (filter visible pool)"

subsection \<open>Spawning a grain from a wind tracer (spawnSandAt)\<close>

text \<open>
  The body of the \<^verbatim>\<open>if (!particle.visible)\<close> of \<^verbatim>\<open>spawnSandAt\<close>: the particle is
  placed just above the ground and launched; one value of \<^verbatim>\<open>Math.random()\<close> is used.
\<close>

definition launch_sand :: "constants \<Rightarrow> sim \<Rightarrow> real \<Rightarrow> real \<Rightarrow> particle \<Rightarrow> particle" where
  "launch_sand k s x z p =
     (let groundY = getTerrainHeight k (heightmap s) x z in
      p\<lparr>pos_x := x, pos_y := groundY + 0.1, pos_z := z,
        vel_x := windSpeed s * cos (windDirection s) * WIND_STRENGTH,
        vel_y := rand s 0 * 0.5 + 0.2,
        vel_z := windSpeed s * sin (windDirection s) * WIND_STRENGTH,
        life := SAND_TTL,
        visible := True\<rparr>)"

text \<open>
  \<^verbatim>\<open>for (const particle of sandPool) { if (!particle.visible) { ...; break; } }\<close>
  The second component counts the calls of \<^verbatim>\<open>Math.random()\<close> (0 or 1).
\<close>

fun spawnSandAt_loop :: "(particle \<Rightarrow> particle) \<Rightarrow> particle list \<Rightarrow> particle list \<times> nat" where
  "spawnSandAt_loop f [] = ([], 0)"
| "spawnSandAt_loop f (p # ps) =
     (if \<not> visible p then (f p # ps, 1)
      else (let (ps', n) = spawnSandAt_loop f ps in (p # ps', n)))"

definition spawnSandAt :: "constants \<Rightarrow> real \<Rightarrow> real \<Rightarrow> sim \<Rightarrow> sim" where
  "spawnSandAt k x z s =
     (let (pool, n) = spawnSandAt_loop (launch_sand k s x z) (sandPool s)
      in s\<lparr>sandPool := pool, rand := advance n (rand s)\<rparr>)"

subsection \<open>Wind tracers (updateWindParticles)\<close>

text \<open>
  \<^verbatim>\<open>Vector3.normalize()\<close> of the three.js library divides by the length, or by 1
  when the length is 0.
\<close>

definition normalize3 :: "real \<times> real \<times> real \<Rightarrow> real \<times> real \<times> real" where
  "normalize3 v =
     (case v of (x, y, z) \<Rightarrow>
        (let l = sqrt (x * x + y * y + z * z); d = (if l = 0 then 1 else l)
         in (x / d, y / d, z / d)))"

definition windDir :: "sim \<Rightarrow> real \<times> real \<times> real" where
  "windDir s = normalize3 (cos (windDirection s), 0, sin (windDirection s))"

definition perpDir :: "sim \<Rightarrow> real \<times> real \<times> real" where
  "perpDir s = normalize3 (- sin (windDirection s), 0, cos (windDirection s))"

text \<open>
  The body of the spawn loop of \<^verbatim>\<open>updateWindParticles\<close> for an invisible particle.
  It calls \<^verbatim>\<open>Math.random()\<close> five times: offset, height, lateral offset, and the
  two velocity perturbations.
\<close>

definition launch_wind :: "constants \<Rightarrow> sim \<Rightarrow> rng \<Rightarrow> particle \<Rightarrow> particle" where
  "launch_wind k s r p =
     (case windDir s of (wx, wy, wz) \<Rightarrow>
      case perpDir s of (px, py, pz) \<Rightarrow>
        (let offset = r 0 * HALF_TERRAIN_WIDTH k;
             x = - wx * (HALF_TERRAIN_WIDTH k + offset);
             z = - wz * (HALF_TERRAIN_DEPTH k + offset);
             y = r 1 * 10 + 5;
             perpOffset = (r 2 - 0.5) * 10
         in p\<lparr>pos_x := x + px * perpOffset, pos_y := y, pos_z := z + pz * perpOffset,
              vel_x := wx * windSpeed s * WIND_STRENGTH + (r 3 - 0.5) * 0.2,
              vel_y := 0,
              vel_z := wz * windSpeed s * WIND_STRENGTH + (r 4 - 0.5) * 0.2,
              life := WIND_TTL,
              visible := True\<rparr>))"

text \<open>
  \<^verbatim>\<open>for (let i = 0; i < windParticles.length && spawned < WIND_SPAWN_RATE; i++)\<close>:
  the loop walks the pool in index order and stops once \<^verbatim>\<open>spawned\<close> reaches the
  rate.
\<close>

fun windSpawn_loop :: "constants \<Rightarrow> sim \<Rightarrow> nat \<Rightarrow> rng \<Rightarrow> particle list \<Rightarrow> particle list \<times> rng" where
  "windSpawn_loop k s spawned r [] = ([], r)"
| "windSpawn_loop k s spawned r (p # ps) =
     (if spawned < WIND_SPAWN_RATE then
        (if \<not> visible p then
           (let (ps', r') = windSpawn_loop k s (spawned + 1) (advance 5 r) ps
            in (launch_wind k s r p # ps', r'))
         else
           (let (ps', r') = windSpawn_loop k s spawned r ps in (p # ps', r')))
      else (p # ps, r))"

text \<open>
  One visible tracer in the update loop: it moves, ages, erodes the terrain under it,
  launches a grain there, and is hidden when its life is over or it has left the terrain
  by more than 10 units.
\<close>

definition wind_step :: "constants \<Rightarrow> particle \<Rightarrow> sim \<Rightarrow> particle \<times> sim" where
  "wind_step k p s =
     (let minX = - HALF_TERRAIN_WIDTH k - 10; maxX = HALF_TERRAIN_WIDTH k + 10;
          minZ = - HALF_TERRAIN_DEPTH k - 10; maxZ = HALF_TERRAIN_DEPTH k + 10;
          p1 = p\<lparr>pos_x := pos_x p + vel_x p * WIND_UPDATE_INTERVAL,
                 pos_z := pos_z p + vel_z p * WIND_UPDATE_INTERVAL\<rparr>;
          p2 = p1\<lparr>life := life p1 - WIND_UPDATE_INTERVAL\<rparr>;
          s1 = s\<lparr>heightmap := updateTerrainAtPoint k (pos_x p2) (pos_z p2) (- EROSION_RATE) (heightmap s)\<rparr>;
          s2 = spawnSandAt k (pos_x p2) (pos_z p2) s1
      in if life p2 \<le> 0 \<or> pos_x p2 < minX \<or> pos_x p2 > maxX \<or> pos_z p2 < minZ \<or> pos_z p2 > maxZ
         then (p2\<lparr>visible := False\<rparr>, s2)
         else (p2, s2))"

text \<open>\<^verbatim>\<open>for (const particle of windParticles) { if (!particle.visible) continue; ... }\<close>\<close>

fun windUpdate_loop :: "constants \<Rightarrow> particle list \<Rightarrow> sim \<Rightarrow> particle list \<times> sim" where
  "windUpdate_loop k [] s = ([], s)"
| "windUpdate_loop k (p # ps) s =
     (if \<not> visible p then
        (let (ps', s') = windUpdate_loop k ps s in (p # ps', s'))
      else
        (let (p', s1) = wind_step k p s;
             (ps', s') = windUpdate_loop k ps s1
         in (p' # ps', s')))"

definition updateWindParticles :: "constants \<Rightarrow> sim \<Rightarrow> sim" where
  "updateWindParticles k s =
     (let (wp1, r1) = windSpawn_loop k s 0 (rand s) (windParticles s);
          (wp2, s2) = windUpdate_loop k wp1 (s\<lparr>rand := r1\<rparr>)
      in s2\<lparr>windParticles := wp2\<rparr>)"

subsection \<open>Sand grains (updateSandParticles)\<close>

text \<open>
  The body of the spawn loop of \<^verbatim>\<open>updateSandParticles\<close> for an invisible particle,
  with its nine calls of \<^verbatim>\<open>Math.random()\<close> in the order of the source: the dune
  index, \<^verbatim>\<open>offsetX\<close> and \<^verbatim>\<open>offsetZ\<close> (computed and not used), \<^verbatim>\<open>spawnX\<close>,
  \<^verbatim>\<open>spawnZ\<close>, the launch angle, the lift and the two velocity perturbations.
  \<^verbatim>\<open>Math.random()\<close> is below 1, so the dune index is below \<^verbatim>\<open>dunes.length\<close>.
\<close>

definition launch_grain :: "constants \<Rightarrow> sim \<Rightarrow> rng \<Rightarrow> particle \<Rightarrow> particle" where
  "launch_grain k s r p =
     (let d = dunes s ! nat \<lfloor>r 0 * real (length (dunes s))\<rfloor>;
          offsetX = (r 1 * 2 - 1) * SAND_SPAWN_SPREAD;
          offsetZ = (r 2 * 2 - 1) * SAND_SPAWN_SPREAD;
          spawnX = r 3 * TERRAIN_WIDTH k - HALF_TERRAIN_WIDTH k;
          spawnZ = r 4 * TERRAIN_DEPTH k - HALF_TERRAIN_DEPTH k;
          spawnY = getTerrainHeight k (heightmap s) spawnX spawnZ + dune_height d * dune_heightScale d;
          variedAngle = windDirection s + (r 5 * 2 - 1) * SAND_ANGLE_SPREAD
      in p\<lparr>pos_x := spawnX, pos_y := spawnY, pos_z := spawnZ,
           vel_x := windSpeed s * cos variedAngle * WIND_STRENGTH + (r 7 - 0.5) * 0.1,
           vel_y := r 6 * 0.5 + 0.2,
           vel_z := windSpeed s * sin variedAngle * WIND_STRENGTH + (r 8 - 0.5) * 0.1,
           life := SAND_TTL,
           visible := True\<rparr>)"

text \<open>
  \<^verbatim>\<open>
  for (let i = 0; i < sandPool.length && spawned < SAND_SPAWN_RATE; i++) {
      const particle = sandPool[i];
      if (particle.visible) continue;
      if (dunes.length === 0) break;
      ...
      spawned++;
  }\<close>
\<close>

fun sandSpawn_loop :: "constants \<Rightarrow> sim \<Rightarrow> nat \<Rightarrow> rng \<Rightarrow> particle list \<Rightarrow> particle list \<times> rng" where
  "sandSpawn_loop k s spawned r [] = ([], r)"
| "sandSpawn_loop k s spawned r (p # ps) =
     (if spawned < SAND_SPAWN_RATE then
        (if visible p then
           (let (ps', r') = sandSpawn_loop k s spawned r ps in (p # ps', r'))
         else if length (dunes s) = 0 then (p # ps, r)
         else
           (let (ps', r') = sandSpawn_loop k s (spawned + 1) (advance 9 r) ps
            in (launch_grain k s r p # ps', r')))
      else (p # ps, r))"

text \<open>
  The physics of one visible grain: position, gravity and life are integrated first.
\<close>

definition integrate_grain :: "real \<Rightarrow> particle \<Rightarrow> particle" where
  "integrate_grain deltaTime p =
     (let p1 = p\<lparr>pos_x := pos_x p + vel_x p * deltaTime,
                 pos_y := pos_y p + vel_y p * deltaTime,
                 pos_z := pos_z p + vel_z p * deltaTime\<rparr>;
          p2 = p1\<lparr>vel_y := vel_y p1 - 9.8 * deltaTime\<rparr>
      in p2\<lparr>life := life p2 - deltaTime\<rparr>)"

definition grain_out_or_expired :: "constants \<Rightarrow> particle \<Rightarrow> bool" where
  "grain_out_or_expired k p \<longleftrightarrow>
     pos_x p < - HALF_TERRAIN_WIDTH k - 10 \<or>
     pos_x p > HALF_TERRAIN_WIDTH k + 10 \<or>
     pos_z p < - HALF_TERRAIN_DEPTH k - 10 \<or>
     pos_z p > HALF_TERRAIN_DEPTH k + 10 \<or>
     life p \<le> 0"

text \<open>
  Then the deposition check, which ends the iteration (\<^verbatim>\<open>continue\<close>), and after it
  the check for leaving the bounds or expiring.
\<close>

definition sand_step :: "constants \<Rightarrow> real \<Rightarrow> particle \<Rightarrow> heightmap \<Rightarrow> particle \<times> heightmap" where
  "sand_step k deltaTime p hm =
     (let q = integrate_grain deltaTime p;
          terrainHeight = getTerrainHeight k hm (pos_x q) (pos_z q)
      in if pos_y q \<le> terrainHeight then
           (q\<lparr>visible := False\<rparr>, updateTerrainAtPoint k (pos_x q) (pos_z q) SAND_PARTICLE_SIZE hm)
         else if grain_out_or_expired k q then (q\<lparr>visible := False\<rparr>, hm)
         else (q, hm))"

text \<open>\<^verbatim>\<open>for (const particle of sandPool) { if (!particle.visible) continue; ... }\<close>\<close>

fun sandPhysics_loop :: "constants \<Rightarrow> real \<Rightarrow> particle list \<Rightarrow> heightmap \<Rightarrow> particle list \<times> heightmap" where
  "sandPhysics_loop k deltaTime [] hm = ([], hm)"
| "sandPhysics_loop k deltaTime (p # ps) hm =
     (if \<not> visible p then
        (let (ps', hm') = sandPhysics_loop k deltaTime ps hm in (p # ps', hm'))
      else
        (let (p', hm1) = sand_step k deltaTime p hm;
             (ps', hm') = sandPhysics_loop k deltaTime ps hm1
         in (p' # ps', hm')))"

definition updateSandParticles :: "constants \<Rightarrow> real \<Rightarrow> sim \<Rightarrow> sim" where
  "updateSandParticles k deltaTime s =
     (let (pool1, r1) = sandSpawn_loop k s 0 (rand s) (sandPool s);
          (pool2, hm2) = sandPhysics_loop k deltaTime pool1 (heightmap s)
      in s\<lparr>sandPool := pool2, heightmap := hm2, rand := r1\<rparr>)"

subsection \<open>Initialisation and reset (init, initTerrain, resetSimulation)\<close>

text \<open>
  The dune loop of \<^verbatim>\<open>initTerrain\<close>: each dune takes two values of
  \<^verbatim>\<open>Math.random()\<close>, is pushed on \<^verbatim>\<open>dunes\<close> and stamped on the heightmap.
\<close>

fun seed_dunes :: "constants \<Rightarrow> real \<Rightarrow> nat \<Rightarrow> rng \<Rightarrow> dune list \<Rightarrow> heightmap \<Rightarrow> dune list \<times> heightmap \<times> rng" where
  "seed_dunes k dh 0 r ds hm = (ds, hm, r)"
| "seed_dunes k dh (Suc n) r ds hm =
     (let d = \<lparr>dune_x = (r 0 - 0.5) * TERRAIN_WIDTH k,
                dune_z = (r 1 - 0.5) * TERRAIN_DEPTH k,
                dune_height = dh,
                dune_baseScale = DUNE_BASE_SCALE,
                dune_heightScale = DUNE_HEIGHT_SCALE,
                dune_widthScale = DUNE_WIDTH_SCALE\<rparr>
      in seed_dunes k dh n (advance 2 r) (ds @ [d])
           (updateTerrainAtPoint k (dune_x d) (dune_z d) (dune_height d) hm))"

definition initTerrain :: "constants \<Rightarrow> sim \<Rightarrow> sim" where
  "initTerrain k s =
     (case seed_dunes k (duneHeight s) (duneCount s) (rand s) [] (flat_heightmap k) of
        (ds, hm, r) \<Rightarrow>
          s\<lparr>heightmap := ((smoothTerrain k) ^^ 3) hm, dunes := ds, rand := r\<rparr>)"

definition hide :: "particle \<Rightarrow> particle" where
  "hide p = p\<lparr>visible := False\<rparr>"

definition resetSimulation :: "constants \<Rightarrow> sim \<Rightarrow> sim" where
  "resetSimulation k s =
     (let s1 = s\<lparr>sandPool := map hide (sandPool s)\<rparr>;
          s2 = s1\<lparr>windParticles := map hide (windParticles s1)\<rparr>;
          s3 = initTerrain k s2
      in s3\<lparr>isSimulating := False, timeAccumulator := 0\<rparr>)"

text \<open>
  \<^verbatim>\<open>init\<close> creates the two pools: 100 wind particles at random positions (three
  values of \<^verbatim>\<open>Math.random()\<close> each) and \<^verbatim>\<open>MAX_SAND_PARTICLES\<close> sand particles at
  the origin, all invisible and at rest. The other variables have their initial values.
\<close>

definition new_wind_particle :: "constants \<Rightarrow> rng \<Rightarrow> nat \<Rightarrow> particle" where
  "new_wind_particle k r i =
     \<lparr>pos_x = (r (3 * i) - 0.5) * TERRAIN_WIDTH k,
      pos_y = r (3 * i + 1) * 10 + 5,
      pos_z = (r (3 * i + 2) - 0.5) * TERRAIN_DEPTH k,
      vel_x = 0, vel_y = 0, vel_z = 0, life = 0, visible = False\<rparr>"

definition new_sand_particle :: particle where
  "new_sand_particle =
     \<lparr>pos_x = 0, pos_y = 0, pos_z = 0, vel_x = 0, vel_y = 0, vel_z = 0, life = 0, visible = False\<rparr>"

definition init :: "constants \<Rightarrow> rng \<Rightarrow> sim" where
  "init k r =
     initTerrain k
       \<lparr>isSimulating = False,
        timeAccumulator = 0,
        windSpeed = 0.5,
        windDirection = 45 * (pi / 180),
        windParticles = map (new_wind_particle k r) [0..<WIND_POOL_SIZE],
        duneHeight = 2,
        duneCount = 10,
        heightmap = [],
        dunes = [],
        sandPool = replicate MAX_SAND_PARTICLES new_sand_particle,
        sandAmount = 3000,
        rand = advance (3 * WIND_POOL_SIZE) r\<rparr>"

subsection \<open>Input events (initUI) and the animation loop (animate)\<close>

datatype key = ArrowUp | ArrowDown | ArrowLeft | ArrowRight | OtherKey

text \<open>
  \<^verbatim>\<open>
  const speedStep = 0.1; const dirStep = Math.PI / 36;
  switch (e.key) {
      case 'ArrowUp':    windSpeed += speedStep; break;
      case 'ArrowDown':  windSpeed = Math.max(0, windSpeed - speedStep); break;
      case 'ArrowLeft':  windDirection -= dirStep; break;
      case 'ArrowRight': windDirection += dirStep; break;
      default: return;
  }\<close>
\<close>

definition speedStep :: real where "speedStep = 0.1"
definition dirStep :: real where "dirStep = pi / 36"

fun keydown :: "key \<Rightarrow> sim \<Rightarrow> sim" where
  "keydown ArrowUp s = s\<lparr>windSpeed := windSpeed s + speedStep\<rparr>"
| "keydown ArrowDown s = s\<lparr>windSpeed := max 0 (windSpeed s - speedStep)\<rparr>"
| "keydown ArrowLeft s = s\<lparr>windDirection := windDirection s - dirStep\<rparr>"
| "keydown ArrowRight s = s\<lparr>windDirection := windDirection s + dirStep\<rparr>"
| "keydown OtherKey s = s"

text \<open>
  \<^verbatim>\<open>updateTerrain\<close> runs the avalanche pass (the rest of it copies the heightmap into
  the mesh). \<^verbatim>\<open>animate\<close> accumulates the frame time and, while simulating, runs the
  wind update when the accumulator has reached the interval, then the sand update and the
  terrain update.
\<close>

definition updateTerrain :: "sim \<Rightarrow> error + sim" where
  "updateTerrain s =
     (case applyAvalanche (heightmap s) of
        Inl e \<Rightarrow> Inl e
      | Inr hm \<Rightarrow> Inr (s\<lparr>heightmap := hm\<rparr>))"

definition animate :: "constants \<Rightarrow> real \<Rightarrow> sim \<Rightarrow> error + sim" where
  "animate k deltaTime s =
     (let s1 = s\<lparr>timeAccumulator := timeAccumulator s + deltaTime\<rparr> in
      if isSimulating s1 then
        (let s2 = (if timeAccumulator s1 \<ge> WIND_UPDATE_INTERVAL
                   then (updateWindParticles k s1)\<lparr>timeAccumulator := 0\<rparr>
                   else s1);
             s3 = updateSandParticles k deltaTime s2
         in updateTerrain s3)
      else Inr s1)"

text \<open>
  What can happen to a running page: a key press, a slider input (the parsed value), a
  click on one of the two buttons, or an animation frame with its \<^verbatim>\<open>clock.getDelta()\<close>.
\<close>

datatype event =
    KeyDown key
  | DuneHeightInput real
  | DuneCountInput nat
  | SandAmountInput int
  | StartClick
  | ResetClick
  | Frame real

fun handle :: "constants \<Rightarrow> event \<Rightarrow> sim \<Rightarrow> error + sim" where
  "handle k (KeyDown c) s = Inr (keydown c s)"
| "handle k (DuneHeightInput v) s = Inr (s\<lparr>duneHeight := v\<rparr>)"
| "handle k (DuneCountInput n) s = Inr (s\<lparr>duneCount := n\<rparr>)"
| "handle k (SandAmountInput n) s = Inr (s\<lparr>sandAmount := n\<rparr>)"
| "handle k StartClick s = Inr (s\<lparr>isSimulating := True\<rparr>)"
| "handle k ResetClick s = Inr (resetSimulation k (s\<lparr>isSimulating := False\<rparr>))"
| "handle k (Frame deltaTime) s = animate k deltaTime s"

fun run :: "constants \<Rightarrow> event list \<Rightarrow> sim \<Rightarrow> error + sim" where
  "run k [] s = Inr s"
| "run k (e # es) s = (case handle k e s of Inl err \<Rightarrow> Inl err | Inr s' \<Rightarrow> run k es s')"

text \<open>
  The concrete scenario of the specification: resolution 4 (a 5 by 5 grid) and brush
  radius 2, on a terrain of the script's width and depth.
\<close>

definition scenario_constants :: constants where
  "scenario_constants = source_constants\<lparr>TERRAIN_RESOLUTION := 4, FALLOFF_RADIUS := 2\<rparr>"

section \<open>Properties\<close>

subsection \<open>Cells of a heightmap\<close>

lemma length_set_cell [simp]: "length (set_cell i j v hm) = length hm"
  by (simp add: set_cell_def)

lemma length_row_set_cell [simp]: "length (set_cell i j v hm ! a) = length (hm ! a)"
  by (cases "a = i"; cases "i < length hm") (simp_all add: set_cell_def list_update_beyond)

lemma cell_set_cell_same:
  "i < length hm \<Longrightarrow> j < length (hm ! i) \<Longrightarrow> cell (set_cell i j v hm) i j = v"
  by (simp add: set_cell_def cell_def)

lemma cell_set_cell_other:
  "(a, b) \<noteq> (i, j) \<Longrightarrow> cell (set_cell i j v hm) a b = cell hm a b"
  by (cases "a = i"; cases "i < length hm") (auto simp: set_cell_def cell_def list_update_beyond)

lemma sum_list_update_real:
  fixes xs :: "real list"
  shows "i < length xs \<Longrightarrow> sum_list (xs[i := v]) = sum_list xs - xs ! i + v"
proof (induction xs arbitrary: i)
  case Nil
  then show ?case by simp
next
  case (Cons x xs)
  then show ?case by (cases i) simp_all
qed

lemma total_mass_set_cell:
  assumes "i < length hm" and "j < length (hm ! i)"
  shows "total_mass (set_cell i j v hm) = total_mass hm - cell hm i j + v"
proof -
  have "map sum_list (hm[i := (hm ! i)[j := v]]) = (map sum_list hm)[i := sum_list ((hm ! i)[j := v])]"
    by (simp add: map_update)
  then have "total_mass (set_cell i j v hm)
      = sum_list (map sum_list hm) - sum_list (hm ! i) + sum_list ((hm ! i)[j := v])"
    using assms(1) by (simp add: total_mass_def set_cell_def sum_list_update_real)
  also have "sum_list ((hm ! i)[j := v]) = sum_list (hm ! i) - hm ! i ! j + v"
    using assms(2) by (rule sum_list_update_real)
  finally show ?thesis by (simp add: total_mass_def cell_def)
qed

lemma map_length_set_cell [simp]: "map length (set_cell i j v hm) = map length hm"
  by (rule nth_equalityI) simp_all

lemma rectangular_shape:
  "rectangular hm \<Longrightarrow> map length hm = replicate (length hm) (length (hd hm))"
  by (rule nth_equalityI) (simp_all add: rectangular_def list_all_length)

lemma shape_row_length:
  "map length hm = replicate nR nC \<Longrightarrow> i < nR \<Longrightarrow> length hm = nR \<and> length (hm ! i) = nC"
  by (metis length_map length_replicate nth_map nth_replicate)

subsection \<open>The avalanche pass is the sequential relaxation of the specification\<close>

lemma ANGLE_OF_REPOSE_eq: "ANGLE_OF_REPOSE = 1 / sqrt 3"
proof -
  have "30 * pi / 180 = pi / 6" by simp
  then show ?thesis unfolding ANGLE_OF_REPOSE_def by (simp only: tan_30)
qed

lemma ANGLE_OF_REPOSE_bounds: "0 < ANGLE_OF_REPOSE" "ANGLE_OF_REPOSE < 1"
proof -
  have "1 < sqrt 3" by (rule real_less_rsqrt) simp
  then show "0 < ANGLE_OF_REPOSE" "ANGLE_OF_REPOSE < 1"
    by (simp_all add: ANGLE_OF_REPOSE_eq)
qed

lemma checkTransfer_transfer:
  assumes "(nRow, nCol) \<noteq> (row, col)"
  shows "checkTransfer row col nRow nCol hm =
     (let diff = cell hm row col - cell hm nRow nCol in
      if diff > ANGLE_OF_REPOSE
      then transfer (row, col) (nRow, nCol) ((diff - ANGLE_OF_REPOSE) * 0.5) hm else hm)"
  using assms by (simp add: checkTransfer_def transfer_def Let_def cell_set_cell_other)

lemma relax_neighbour_checkTransfer:
  assumes "1 \<le> row" and "1 \<le> col"
  shows "relax_neighbour (row, col) Above hm = checkTransfer row col (row - 1) col hm"
    and "relax_neighbour (row, col) Below hm = checkTransfer row col (row + 1) col hm"
    and "relax_neighbour (row, col) Left hm = checkTransfer row col row (col - 1) hm"
    and "relax_neighbour (row, col) Right hm = checkTransfer row col row (col + 1) hm"
  using assms by (simp_all add: relax_neighbour_def checkTransfer_transfer Let_def)

lemma relax_cell_checkTransfer:
  assumes "1 \<le> row" and "1 \<le> col"
  shows "relax_cell (row, col) hm =
     checkTransfer row col row (col + 1)
       (checkTransfer row col row (col - 1)
         (checkTransfer row col (row + 1) col
           (checkTransfer row col (row - 1) col hm)))"
  by (simp add: relax_cell_def relax_neighbour_checkTransfer [OF assms])

lemma avalanche_cols_fold:
  "1 \<le> row \<Longrightarrow> 1 \<le> col \<Longrightarrow>
   avalanche_cols numCols row col hm = fold relax_cell (map (Pair row) [col..<numCols - 1]) hm"
proof (induction numCols row col hm rule: avalanche_cols.induct)
  case (1 numCols row col hm)
  show ?case
  proof (cases "col < numCols - 1")
    case True
    then have "[col..<numCols - 1] = col # [col + 1..<numCols - 1]"
      by (simp add: upt_conv_Cons)
    with True 1 show ?thesis
      by (subst avalanche_cols.simps) (simp add: relax_cell_checkTransfer)
  next
    case False
    then show ?thesis by (subst avalanche_cols.simps) simp
  qed
qed

lemma avalanche_rows_fold:
  "1 \<le> row \<Longrightarrow>
   avalanche_rows numRows numCols row hm =
     fold relax_cell (List.product [row..<numRows - 1] [1..<numCols - 1]) hm"
proof (induction numRows numCols row hm rule: avalanche_rows.induct)
  case (1 numRows numCols row hm)
  show ?case
  proof (cases "row < numRows - 1")
    case True
    then have "[row..<numRows - 1] = row # [row + 1..<numRows - 1]"
      by (simp add: upt_conv_Cons)
    with True 1 show ?thesis
      by (subst avalanche_rows.simps) (simp add: avalanche_cols_fold)
  next
    case False
    then show ?thesis by (subst avalanche_rows.simps) simp
  qed
qed

text \<open>
  C1. One call of \<^verbatim>\<open>applyAvalanche\<close> is exactly one sequential pass: it visits the
  interior cells in row-major order, examines for each the neighbours above, below, left
  and right in that order, and whenever \<open>diff = height[cell] - height[neighbour]\<close>
  exceeds the angle-of-repose tangent it moves \<open>t = (diff - A) * 0.5\<close> from the cell to
  that neighbour at once, so that every later comparison reads the updated heights.
\<close>

theorem applyAvalanche_sequential_pass:
  "hm \<noteq> [] \<Longrightarrow> applyAvalanche hm = Inr (avalanche_pass hm)"
  by (cases hm)
    (simp_all add: applyAvalanche_def avalanche_pass_def interior_cells_def avalanche_rows_fold)

theorem applyAvalanche_sequential_pass_witness:
  "[[0, 0, 0], [0, 3, 0], [0, 0, 0]] \<noteq> ([] :: heightmap) \<and>
   applyAvalanche [[0, 0, 0], [0, 3, 0], [0, 0, 0]] =
     Inr [[0, (3 - ANGLE_OF_REPOSE) / 2, 0],
          [(3 - ANGLE_OF_REPOSE) / 8, (3 + 15 * ANGLE_OF_REPOSE) / 16, (3 - ANGLE_OF_REPOSE) / 16],
          [0, (3 - ANGLE_OF_REPOSE) / 4, 0]]"
proof -
  let ?hm = "[[0, 0, 0], [0, 3, 0], [0, 0, 0]] :: heightmap"
  have ne: "?hm \<noteq> []" by simp
  have A: "ANGLE_OF_REPOSE < 3" using ANGLE_OF_REPOSE_bounds by simp
  have "avalanche_pass ?hm =
     [[0, (3 - ANGLE_OF_REPOSE) / 2, 0],
      [(3 - ANGLE_OF_REPOSE) / 8, (3 + 15 * ANGLE_OF_REPOSE) / 16, (3 - ANGLE_OF_REPOSE) / 16],
      [0, (3 - ANGLE_OF_REPOSE) / 4, 0]]"
    using A
    apply (simp add: avalanche_pass_def interior_cells_def relax_cell_def relax_neighbour_def
        transfer_def set_cell_def cell_def Let_def)
    apply (intro conjI impI; argo)
    done
  with applyAvalanche_sequential_pass [OF ne] ne show ?thesis by simp
qed

subsection \<open>The avalanche pass conserves mass\<close>

lemma map_length_checkTransfer [simp]:
  "map length (checkTransfer row col nRow nCol hm) = map length hm"
  by (simp add: checkTransfer_def Let_def)

lemma total_mass_checkTransfer:
  assumes shape: "map length hm = replicate nR nC"
    and c: "row < nR" "col < nC" and n: "nRow < nR" "nCol < nC"
  shows "total_mass (checkTransfer row col nRow nCol hm) = total_mass hm"
proof (cases "cell hm row col - cell hm nRow nCol > ANGLE_OF_REPOSE")
  case False
  then show ?thesis by (simp add: checkTransfer_def)
next
  case True
  define t where "t = (cell hm row col - cell hm nRow nCol - ANGLE_OF_REPOSE) * 0.5"
  define hm1 where "hm1 = set_cell row col (cell hm row col - t) hm"
  have in_c: "row < length hm" "col < length (hm ! row)"
    using shape_row_length [OF shape c(1)] c by simp_all
  have shape1: "map length hm1 = replicate nR nC"
    using shape by (simp add: hm1_def)
  have in_n: "nRow < length hm1" "nCol < length (hm1 ! nRow)"
    using shape_row_length [OF shape1 n(1)] n by simp_all
  have "total_mass hm1 = total_mass hm - t"
    unfolding hm1_def by (simp add: total_mass_set_cell [OF in_c])
  moreover have "total_mass (set_cell nRow nCol (cell hm1 nRow nCol + t) hm1) = total_mass hm1 + t"
    by (simp add: total_mass_set_cell [OF in_n])
  moreover have "checkTransfer row col nRow nCol hm = set_cell nRow nCol (cell hm1 nRow nCol + t) hm1"
    using True by (simp add: checkTransfer_def Let_def hm1_def t_def)
  ultimately show ?thesis by simp
qed

lemma avalanche_cols_mass:
  "map length hm = replicate nR numCols \<Longrightarrow> 1 \<le> row \<Longrightarrow> row + 1 < nR \<Longrightarrow>
   map length (avalanche_cols numCols row col hm) = map length hm \<and>
   total_mass (avalanche_cols numCols row col hm) = total_mass hm"
proof (induction numCols row col hm rule: avalanche_cols.induct)
  case (1 numCols row col hm)
  show ?case
  proof (cases "col < numCols - 1")
    case False
    then show ?thesis by (subst (1 2) avalanche_cols.simps) simp
  next
    case True
    let ?h1 = "checkTransfer row col (row - 1) col hm"
    let ?h2 = "checkTransfer row col (row + 1) col ?h1"
    let ?h3 = "checkTransfer row col row (col - 1) ?h2"
    let ?h4 = "checkTransfer row col row (col + 1) ?h3"
    have rng: "row < nR" "row - 1 < nR" "col < numCols" "col - 1 < numCols" "col + 1 < numCols"
      using True "1.prems" by simp_all
    have s0: "map length hm = replicate nR numCols"
      by (rule "1.prems"(1))
    have s1: "map length ?h1 = replicate nR numCols"
      and s2: "map length ?h2 = replicate nR numCols"
      and s3: "map length ?h3 = replicate nR numCols"
      using s0 by simp_all
    have m1: "total_mass ?h1 = total_mass hm"
      by (rule total_mass_checkTransfer [OF s0 rng(1) rng(3) rng(2) rng(3)])
    have m2: "total_mass ?h2 = total_mass ?h1"
      by (rule total_mass_checkTransfer [OF s1 rng(1) rng(3) "1.prems"(3) rng(3)])
    have m3: "total_mass ?h3 = total_mass ?h2"
      by (rule total_mass_checkTransfer [OF s2 rng(1) rng(3) rng(1) rng(4)])
    have m4: "total_mass ?h4 = total_mass ?h3"
      by (rule total_mass_checkTransfer [OF s3 rng(1) rng(3) rng(1) rng(5)])
    have "map length ?h4 = replicate nR numCols"
      using "1.prems"(1) by simp
    from "1.IH" [OF True this "1.prems"(2,3)] True m1 m2 m3 m4 show ?thesis
      by (subst (1 2) avalanche_cols.simps) simp
  qed
qed

lemma avalanche_rows_mass:
  "map length hm = replicate numRows numCols \<Longrightarrow> 1 \<le> row \<Longrightarrow>
   map length (avalanche_rows numRows numCols row hm) = map length hm \<and>
   total_mass (avalanche_rows numRows numCols row hm) = total_mass hm"
proof (induction numRows numCols row hm rule: avalanche_rows.induct)
  case (1 numRows numCols row hm)
  show ?case
  proof (cases "row < numRows - 1")
    case False
    then show ?thesis by (subst (1 2) avalanche_rows.simps) simp
  next
    case True
    then have "row + 1 < numRows" by simp
    from avalanche_cols_mass [OF "1.prems"(1,2) this, of 1]
    have cols: "map length (avalanche_cols numCols row 1 hm) = map length hm"
      "total_mass (avalanche_cols numCols row 1 hm) = total_mass hm"
      by simp_all
    have "map length (avalanche_cols numCols row 1 hm) = replicate numRows numCols"
      using cols(1) "1.prems"(1) by simp
    from "1.IH" [OF True this] True cols show ?thesis
      by (subst (1 2) avalanche_rows.simps) simp
  qed
qed

text \<open>
  C10. One avalanche pass conserves the total terrain mass: on every rectangular
  heightmap \<^verbatim>\<open>applyAvalanche\<close> returns, and the sum of all cell elevations
  afterwards equals the sum before (in exact real arithmetic).
\<close>

theorem applyAvalanche_conserves_mass:
  assumes "rectangular hm"
  shows "\<exists>hm'. applyAvalanche hm = Inr hm' \<and> total_mass hm' = total_mass hm"
proof -
  from assms obtain row0 rest where hm: "hm = row0 # rest"
    by (cases hm) (simp_all add: rectangular_def)
  have "map length hm = replicate (length hm) (length row0)"
    using rectangular_shape [OF assms] hm by simp
  from avalanche_rows_mass [OF this, of 1] show ?thesis
    by (simp add: applyAvalanche_def hm)
qed

theorem applyAvalanche_conserves_mass_witness:
  "rectangular [[0, 0, 0], [0, 3, 0], [0, 0, 0]] \<and>
   (\<exists>hm'. applyAvalanche [[0, 0, 0], [0, 3, 0], [0, 0, 0]] = Inr hm' \<and> total_mass hm' = 3)"
proof -
  have r: "rectangular [[0, 0, 0], [0, 3, 0], [0, 0, 0]]"
    by (simp add: rectangular_def)
  from applyAvalanche_conserves_mass [OF r] r show ?thesis
    by (simp add: total_mass_def)
qed

subsection \<open>Painting: the brush loops and what they add to each cell\<close>

lemma wf_heightmap_shape:
  "wf_heightmap k hm \<longleftrightarrow>
     map length hm = replicate (TERRAIN_RESOLUTION k + 1) (TERRAIN_RESOLUTION k + 1)"
proof
  assume "wf_heightmap k hm"
  then show "map length hm = replicate (TERRAIN_RESOLUTION k + 1) (TERRAIN_RESOLUTION k + 1)"
    by (intro nth_equalityI) (simp_all add: wf_heightmap_def list_all_length del: replicate.simps)
next
  assume s: "map length hm = replicate (TERRAIN_RESOLUTION k + 1) (TERRAIN_RESOLUTION k + 1)"
  then have "length hm = TERRAIN_RESOLUTION k + 1"
    by (metis length_map length_replicate)
  moreover from s have "\<forall>i < length hm. length (hm ! i) = TERRAIN_RESOLUTION k + 1"
    by (metis calculation shape_row_length)
  ultimately show "wf_heightmap k hm"
    by (simp add: wf_heightmap_def list_all_length)
qed

lemma map_length_paint_cell [simp]:
  "map length (paint_cell k i j h di dj hm) = map length hm"
  by (simp add: paint_cell_def Let_def)

lemma cell_paint_cell:
  assumes "wf_heightmap k hm" and "a \<le> TERRAIN_RESOLUTION k" and "b \<le> TERRAIN_RESOLUTION k"
  shows "cell (paint_cell k i j h di dj hm) a b =
     cell hm a b + (if int a - i = di \<and> int b - j = dj then brush_delta k h di dj else 0)"
proof (cases "int a - i = di \<and> int b - j = dj")
  case True
  then have g: "in_grid k (i + di) (j + dj)" and n: "nat (i + di) = a" "nat (j + dj) = b"
    using assms(2,3) by (auto simp: in_grid_def)
  have "a < length hm" "b < length (hm ! a)"
    using assms by (simp_all add: wf_heightmap_def list_all_length)
  then show ?thesis
    using True g n by (simp add: paint_cell_def Let_def cell_set_cell_same brush_delta_def)
next
  case False
  then have z: "(if int a - i = di \<and> int b - j = dj then brush_delta k h di dj else 0) = 0"
    by (rule if_not_P)
  have "cell (paint_cell k i j h di dj hm) a b = cell hm a b"
  proof (cases "in_grid k (i + di) (j + dj)")
    case g: True
    then have "(a, b) \<noteq> (nat (i + di), nat (j + dj))"
      using False by (auto simp: in_grid_def)
    then show ?thesis
      using g by (simp add: paint_cell_def Let_def cell_set_cell_other)
  next
    case g: False
    then show ?thesis by (simp add: paint_cell_def Let_def)
  qed
  then show ?thesis unfolding z by simp
qed

lemma wf_paint_cell [simp]: "wf_heightmap k (paint_cell k' i j h di dj hm) = wf_heightmap k hm"
  by (simp add: wf_heightmap_shape)

lemma paint_dj_fold:
  "paint_dj k i j h di dj hm = fold (paint_cell k i j h di) [dj..int (FALLOFF_RADIUS k)] hm"
proof (induction k i j h di dj hm rule: paint_dj.induct)
  case (1 k i j h di dj hm)
  show ?case
  proof (cases "dj \<le> int (FALLOFF_RADIUS k)")
    case True
    with 1 show ?thesis
      by (subst paint_dj.simps) (simp add: upto_rec1 [of dj])
  next
    case False
    then show ?thesis by (subst paint_dj.simps) simp
  qed
qed

lemma paint_di_fold:
  "paint_di k i j h di hm =
     fold (\<lambda>di. fold (paint_cell k i j h di) [- int (FALLOFF_RADIUS k)..int (FALLOFF_RADIUS k)])
       [di..int (FALLOFF_RADIUS k)] hm"
proof (induction k i j h di hm rule: paint_di.induct)
  case (1 k i j h di hm)
  show ?case
  proof (cases "di \<le> int (FALLOFF_RADIUS k)")
    case True
    with 1 show ?thesis
      by (subst paint_di.simps) (simp add: upto_rec1 [of di] paint_dj_fold)
  next
    case False
    then show ?thesis by (subst paint_di.simps) simp
  qed
qed

lemma fold_paint_cell:
  assumes "wf_heightmap k hm" and "a \<le> TERRAIN_RESOLUTION k" and "b \<le> TERRAIN_RESOLUTION k"
  shows "wf_heightmap k (fold (paint_cell k i j h di) djs hm) \<and>
     cell (fold (paint_cell k i j h di) djs hm) a b =
       cell hm a b +
       (\<Sum>dj\<leftarrow>djs. if int a - i = di \<and> int b - j = dj then brush_delta k h di dj else 0)"
  using assms(1)
proof (induction djs arbitrary: hm)
  case Nil
  then show ?case by simp
next
  case (Cons dj djs)
  have "wf_heightmap k (paint_cell k i j h di dj hm)"
    using Cons.prems by simp
  from Cons.IH [OF this] cell_paint_cell [OF Cons.prems assms(2,3)] show ?case
    by simp
qed

lemma fold_fold_paint_cell:
  assumes "wf_heightmap k hm" and "a \<le> TERRAIN_RESOLUTION k" and "b \<le> TERRAIN_RESOLUTION k"
  shows "wf_heightmap k (fold (\<lambda>di. fold (paint_cell k i j h di) djs) dis hm) \<and>
     cell (fold (\<lambda>di. fold (paint_cell k i j h di) djs) dis hm) a b =
       cell hm a b +
       (\<Sum>di\<leftarrow>dis. \<Sum>dj\<leftarrow>djs.
          if int a - i = di \<and> int b - j = dj then brush_delta k h di dj else 0)"
  using assms(1)
proof (induction dis arbitrary: hm)
  case Nil
  then show ?case by simp
next
  case (Cons di dis)
  from fold_paint_cell [OF Cons.prems assms(2,3)]
  have 1: "wf_heightmap k (fold (paint_cell k i j h di) djs hm)"
    and 2: "cell (fold (paint_cell k i j h di) djs hm) a b =
       cell hm a b +
       (\<Sum>dj\<leftarrow>djs. if int a - i = di \<and> int b - j = dj then brush_delta k h di dj else 0)"
    by simp_all
  from Cons.IH [OF 1] 2 show ?case by simp
qed

lemma sum_list_upto_single:
  fixes f :: "int \<Rightarrow> real"
  shows "(\<Sum>x\<leftarrow>[l..u]. if c = x then f x else 0) = (if l \<le> c \<and> c \<le> u then f c else 0)"
  by (simp add: sum_list_distinct_conv_sum_set)

lemma brush_sum:
  fixes f :: "int \<Rightarrow> int \<Rightarrow> real"
  shows "(\<Sum>di\<leftarrow>[- r..r]. \<Sum>dj\<leftarrow>[- r..r]. if ca = di \<and> cb = dj then f di dj else 0) =
   (if \<bar>ca\<bar> \<le> r \<and> \<bar>cb\<bar> \<le> r then f ca cb else 0)"
proof -
  have "(\<Sum>di\<leftarrow>[- r..r]. \<Sum>dj\<leftarrow>[- r..r]. if ca = di \<and> cb = dj then f di dj else 0) =
    (\<Sum>di\<leftarrow>[- r..r]. if ca = di then
        (\<Sum>dj\<leftarrow>[- r..r]. if cb = dj then f di dj else 0) else 0)"
    by (intro arg_cong [where f = sum_list] map_cong refl) (auto intro!: sum_list_0)
  also have "\<dots> = (if - r \<le> ca \<and> ca \<le> r then
        (\<Sum>dj\<leftarrow>[- r..r]. if cb = dj then f ca dj else 0) else 0)"
    by (rule sum_list_upto_single)
  also have "\<dots> = (if \<bar>ca\<bar> \<le> r \<and> \<bar>cb\<bar> \<le> r then f ca cb else 0)"
    by (simp add: sum_list_upto_single abs_le_iff) 
  finally show ?thesis .
qed

lemma map_length_fold_paint_cell [simp]:
  "map length (fold (paint_cell k i j h di) djs hm) = map length hm"
  by (induction djs arbitrary: hm) simp_all

lemma map_length_fold_fold_paint_cell [simp]:
  "map length (fold (\<lambda>di. fold (paint_cell k i j h di) djs) dis hm) = map length hm"
  by (induction dis arbitrary: hm) simp_all

lemma map_length_updateTerrainAtPoint [simp]:
  "map length (updateTerrainAtPoint k x z h hm) = map length hm"
  by (simp add: updateTerrainAtPoint_def Let_def paint_di_fold)

lemma wf_updateTerrainAtPoint [simp]:
  "wf_heightmap k (updateTerrainAtPoint k' x z h hm) = wf_heightmap k hm"
  by (simp add: wf_heightmap_shape)

lemma cell_updateTerrainAtPoint:
  assumes "wf_heightmap k hm" and "a \<le> TERRAIN_RESOLUTION k" and "b \<le> TERRAIN_RESOLUTION k"
  shows "cell (updateTerrainAtPoint k x z h hm) a b =
     cell hm a b +
     (if in_grid k (grid_i k x) (grid_j k z) \<and>
         \<bar>int a - grid_i k x\<bar> \<le> int (FALLOFF_RADIUS k) \<and>
         \<bar>int b - grid_j k z\<bar> \<le> int (FALLOFF_RADIUS k)
      then brush_delta k h (int a - grid_i k x) (int b - grid_j k z) else 0)"
  using fold_fold_paint_cell [OF assms]
  by (simp add: updateTerrainAtPoint_def Let_def paint_di_fold brush_sum)

subsection \<open>Painting adds the falloff-weighted amount, and only near the centre\<close>

lemma wf_flat_heightmap [simp]: "wf_heightmap k (flat_heightmap k)"
  by (simp add: wf_heightmap_def flat_heightmap_def list_all_length del: replicate.simps)

lemma cell_flat_heightmap:
  "a \<le> TERRAIN_RESOLUTION k \<Longrightarrow> b \<le> TERRAIN_RESOLUTION k \<Longrightarrow> cell (flat_heightmap k) a b = 0"
  by (simp add: cell_def flat_heightmap_def del: replicate.simps)

lemma heightmap_cells:
  assumes "wf_heightmap k hm"
  shows "hm = map (\<lambda>a. map (\<lambda>b. cell hm a b) [0..<TERRAIN_RESOLUTION k + 1]) [0..<TERRAIN_RESOLUTION k + 1]"
  using assms
  by (intro nth_equalityI) (simp_all add: wf_heightmap_def list_all_length cell_def del: upt_Suc)

lemma grid_distance_squares:
  "grid_distance i j a b = sqrt ((real_of_int (int a - i))\<^sup>2 + (real_of_int (int b - j))\<^sup>2)"
  by (simp add: grid_distance_def power2_eq_square)

lemma grid_distance_ge:
  "real_of_int \<bar>int a - i\<bar> \<le> grid_distance i j a b"
  "real_of_int \<bar>int b - j\<bar> \<le> grid_distance i j a b"
  unfolding grid_distance_squares by simp_all

lemma brush_delta_weight:
  "0 < FALLOFF_RADIUS k \<Longrightarrow>
   brush_delta k h (int a - i) (int b - j) = h * brush_weight k (grid_distance i j a b)"
  by (simp add: brush_delta_def brush_weight_def grid_distance_def FALLOFF_STRENGTH_def
      min_def max_def)

lemma brush_weight_far:
  assumes "0 < FALLOFF_RADIUS k" and "real (FALLOFF_RADIUS k) \<le> d"
  shows "brush_weight k d = 0"
  using assms by (simp add: brush_weight_def max_def)

lemma outside_square_far:
  assumes "\<not> (\<bar>int a - i\<bar> \<le> int r \<and> \<bar>int b - j\<bar> \<le> int r)"
  shows "real r < grid_distance i j a b"
proof -
  from assms consider "int r < \<bar>int a - i\<bar>" | "int r < \<bar>int b - j\<bar>" by linarith
  then show ?thesis
  proof cases
    case 1
    then have "real r < real_of_int \<bar>int a - i\<bar>" by linarith
    with grid_distance_ge(1) [where a = a and i = i and j = j and b = b] show ?thesis by linarith
  next
    case 2
    then have "real r < real_of_int \<bar>int b - j\<bar>" by linarith
    with grid_distance_ge(2) [where a = a and i = i and j = j and b = b] show ?thesis by linarith
  qed
qed

lemma cell_updateTerrainAtPoint_weight:
  assumes "0 < FALLOFF_RADIUS k" and "wf_heightmap k hm"
    and "a \<le> TERRAIN_RESOLUTION k" and "b \<le> TERRAIN_RESOLUTION k"
  shows "cell (updateTerrainAtPoint k x z h hm) a b =
     cell hm a b +
     (if in_grid k (grid_i k x) (grid_j k z)
      then h * brush_weight k (grid_distance (grid_i k x) (grid_j k z) a b) else 0)"
proof (cases "\<bar>int a - grid_i k x\<bar> \<le> int (FALLOFF_RADIUS k) \<and>
              \<bar>int b - grid_j k z\<bar> \<le> int (FALLOFF_RADIUS k)")
  case True
  then show ?thesis
    by (simp add: cell_updateTerrainAtPoint [OF assms(2-4)] brush_delta_weight [OF assms(1)])
next
  case False
  from outside_square_far [OF this]
  have "real (FALLOFF_RADIUS k) \<le> grid_distance (grid_i k x) (grid_j k z) a b" by simp
  from brush_weight_far [OF assms(1) this] False show ?thesis
    by (auto simp: cell_updateTerrainAtPoint [OF assms(2-4)])
qed

text \<open>
  C2. For every world coordinate whose grid cell \<open>(grid_i x, grid_j z)\<close> is in bounds and
  every \<open>deltaHeight\<close>, \<^verbatim>\<open>updateTerrainAtPoint\<close> adds
  \<open>deltaHeight * max(0, 1 - dist / Rb)\<close> to every cell of the grid, \<open>dist\<close> being the
  Euclidean grid distance of the cell from the centre cell; the grid keeps its shape
  (offsets that fall outside the grid are skipped). In the scenario of the
  specification, resolution 4, brush radius 2, an all-zero grid and \<open>+10\<close> painted at
  the centre cell (2, 2), this gives 10 there, 5 at the four neighbours,
  \<open>10 * (1 - sqrt 2 / 2)\<close> (about 2.93) at the diagonal neighbours and 0 everywhere else.
\<close>

theorem updateTerrainAtPoint_falloff:
  assumes "valid_constants k" and "wf_heightmap k hm"
    and "in_grid k (grid_i k x) (grid_j k z)"
    and "a \<le> TERRAIN_RESOLUTION k" and "b \<le> TERRAIN_RESOLUTION k"
  shows "wf_heightmap k (updateTerrainAtPoint k x z deltaHeight hm) \<and>
     cell (updateTerrainAtPoint k x z deltaHeight hm) a b =
       cell hm a b + deltaHeight * brush_weight k (grid_distance (grid_i k x) (grid_j k z) a b)"
proof -
  have "0 < FALLOFF_RADIUS k"
    using assms(1) by (simp add: valid_constants_def)
  from cell_updateTerrainAtPoint_weight [OF this assms(2,4,5)] assms(2,3) show ?thesis
    by simp
qed

text \<open>
  C9. Painting is local: after one call of \<^verbatim>\<open>updateTerrainAtPoint\<close>, whatever the
  heightmap, the world coordinate and \<open>deltaHeight\<close>, every cell whose Euclidean grid
  distance from the brush's centre cell exceeds the brush radius has the elevation it
  had before the call.
\<close>

theorem updateTerrainAtPoint_locality:
  assumes "valid_constants k" and "wf_heightmap k hm"
    and "a \<le> TERRAIN_RESOLUTION k" and "b \<le> TERRAIN_RESOLUTION k"
    and "grid_distance (grid_i k x) (grid_j k z) a b > real (FALLOFF_RADIUS k)"
  shows "cell (updateTerrainAtPoint k x z deltaHeight hm) a b = cell hm a b"
proof -
  have r: "0 < FALLOFF_RADIUS k"
    using assms(1) by (simp add: valid_constants_def)
  have "brush_weight k (grid_distance (grid_i k x) (grid_j k z) a b) = 0"
    using assms(5) by (intro brush_weight_far [OF r]) simp
  then show ?thesis
    by (simp add: cell_updateTerrainAtPoint_weight [OF r assms(2-4)])
qed

lemma scenario_simps [simp]:
  "TERRAIN_RESOLUTION scenario_constants = 4" "FALLOFF_RADIUS scenario_constants = 2"
  "TERRAIN_WIDTH scenario_constants = 600" "TERRAIN_DEPTH scenario_constants = 200"
  by (simp_all add: scenario_constants_def source_constants_def)

lemma scenario_centre: "grid_i scenario_constants 0 = 2" "grid_j scenario_constants 0 = 2"
  by (simp_all add: grid_i_def grid_j_def HALF_TERRAIN_WIDTH_def HALF_TERRAIN_DEPTH_def
      GRID_SIZE_X_def GRID_SIZE_Z_def)

lemma scenario_weights:
  "brush_weight scenario_constants 0 = 1"
  "brush_weight scenario_constants 1 = 1 / 2"
  "brush_weight scenario_constants (sqrt 2) = 1 - sqrt 2 / 2"
  "brush_weight scenario_constants 2 = 0"
  "brush_weight scenario_constants (sqrt 5) = 0"
  "brush_weight scenario_constants (sqrt 8) = 0"
proof -
  have "sqrt 2 \<le> 2" by (rule real_le_lsqrt) simp_all
  then show "brush_weight scenario_constants (sqrt 2) = 1 - sqrt 2 / 2"
    by (simp add: brush_weight_def max_def)
  have "2 \<le> sqrt 5" "2 \<le> sqrt 8" by (rule real_le_rsqrt, simp)+
  then show "brush_weight scenario_constants (sqrt 5) = 0"
    "brush_weight scenario_constants (sqrt 8) = 0"
    by (simp_all add: brush_weight_def max_def)
qed (simp_all add: brush_weight_def)

lemma upt_0_5: "[0..<5] = [0, 1, 2, 3, 4]"
  by code_simp

lemma sqrt2_bounds: "1.414 < sqrt 2" "sqrt 2 < 1.415"
  by (rule real_less_rsqrt, simp add: power2_eq_square)
     (rule real_less_lsqrt, simp_all add: power2_eq_square)

theorem updateTerrainAtPoint_falloff_witness:
  "valid_constants scenario_constants \<and>
   wf_heightmap scenario_constants (flat_heightmap scenario_constants) \<and>
   in_grid scenario_constants (grid_i scenario_constants 0) (grid_j scenario_constants 0) \<and>
   grid_i scenario_constants 0 = 2 \<and> grid_j scenario_constants 0 = 2 \<and>
   updateTerrainAtPoint scenario_constants 0 0 10 (flat_heightmap scenario_constants) =
     [[0, 0, 0, 0, 0],
      [0, 10 * (1 - sqrt 2 / 2), 5, 10 * (1 - sqrt 2 / 2), 0],
      [0, 5, 10, 5, 0],
      [0, 10 * (1 - sqrt 2 / 2), 5, 10 * (1 - sqrt 2 / 2), 0],
      [0, 0, 0, 0, 0]] \<and>
   \<bar>10 * (1 - sqrt 2 / 2) - 2.93\<bar> < 0.01"
proof -
  let ?k = scenario_constants
  let ?P = "updateTerrainAtPoint ?k 0 0 10 (flat_heightmap ?k)"
  have r: "valid_constants ?k" by (simp add: valid_constants_def)
  have w: "wf_heightmap ?k (flat_heightmap ?k)" by simp
  have g: "in_grid ?k (grid_i ?k 0) (grid_j ?k 0)"
    by (simp add: scenario_centre in_grid_def)
  have c: "cell ?P a b = 10 * brush_weight ?k (grid_distance 2 2 a b)"
    if "a \<le> 4" "b \<le> 4" for a b
    using updateTerrainAtPoint_falloff [OF r w g, of a b 10] that
    by (simp add: scenario_centre cell_flat_heightmap)
  have wP: "wf_heightmap ?k ?P"
    using updateTerrainAtPoint_falloff [OF r w g, of 0 0 10] by simp
  have "?P = map (\<lambda>a. map (\<lambda>b. cell ?P a b) [0..<5]) [0..<5]"
    using heightmap_cells [OF wP] by simp
  also have "\<dots> = map (\<lambda>a. map (\<lambda>b. 10 * brush_weight ?k (grid_distance 2 2 a b)) [0..<5]) [0..<5]"
    by (intro map_cong refl c) simp_all
  also have "\<dots> = [[0, 0, 0, 0, 0],
      [0, 10 * (1 - sqrt 2 / 2), 5, 10 * (1 - sqrt 2 / 2), 0],
      [0, 5, 10, 5, 0],
      [0, 10 * (1 - sqrt 2 / 2), 5, 10 * (1 - sqrt 2 / 2), 0],
      [0, 0, 0, 0, 0]]"
    by (simp add: upt_0_5 grid_distance_def scenario_weights)
  finally have P: "?P = [[0, 0, 0, 0, 0],
      [0, 10 * (1 - sqrt 2 / 2), 5, 10 * (1 - sqrt 2 / 2), 0],
      [0, 5, 10, 5, 0],
      [0, 10 * (1 - sqrt 2 / 2), 5, 10 * (1 - sqrt 2 / 2), 0],
      [0, 0, 0, 0, 0]]" .
  have "\<bar>10 * (1 - sqrt 2 / 2) - 2.93\<bar> < 0.01"
    using sqrt2_bounds by (simp add: abs_less_iff)
  with r w g P show ?thesis by (simp only: scenario_centre simp_thms)
qed

theorem updateTerrainAtPoint_locality_witness:
  "valid_constants scenario_constants \<and>
   wf_heightmap scenario_constants
     [[0, 1, 2, 3, 4], [5, 6, 7, 8, 9], [10, 11, 12, 13, 14], [15, 16, 17, 18, 19], [20, 21, 22, 23, 24]] \<and>
   (4 :: nat) \<le> TERRAIN_RESOLUTION scenario_constants \<and>
   (3 :: nat) \<le> TERRAIN_RESOLUTION scenario_constants \<and>
   grid_distance (grid_i scenario_constants 0) (grid_j scenario_constants 0) 4 3
     > real (FALLOFF_RADIUS scenario_constants) \<and>
   cell (updateTerrainAtPoint scenario_constants 0 0 10
     [[0, 1, 2, 3, 4], [5, 6, 7, 8, 9], [10, 11, 12, 13, 14], [15, 16, 17, 18, 19], [20, 21, 22, 23, 24]]) 4 3 = 23"
proof -
  let ?k = scenario_constants
  let ?hm = "[[0, 1, 2, 3, 4], [5, 6, 7, 8, 9], [10, 11, 12, 13, 14], [15, 16, 17, 18, 19],
    [20, 21, 22, 23, 24]] :: heightmap"
  have r: "valid_constants ?k" by (simp add: valid_constants_def)
  have w: "wf_heightmap ?k ?hm" by (simp add: wf_heightmap_def)
  have a: "(4 :: nat) \<le> TERRAIN_RESOLUTION ?k" and b: "(3 :: nat) \<le> TERRAIN_RESOLUTION ?k"
    by simp_all
  have "2 < sqrt 5" by (rule real_less_rsqrt) simp
  then have d: "grid_distance (grid_i ?k 0) (grid_j ?k 0) 4 3 > real (FALLOFF_RADIUS ?k)"
    by (simp add: scenario_centre grid_distance_def)
  from updateTerrainAtPoint_locality [OF r w a b d, of 10] r w a b d show ?thesis
    by (simp add: cell_def)
qed

subsection \<open>The height query at and beyond the terrain edge\<close>

lemma source_simps [simp]:
  "TERRAIN_RESOLUTION source_constants = 100" "FALLOFF_RADIUS source_constants = 3"
  "TERRAIN_WIDTH source_constants = 600" "TERRAIN_DEPTH source_constants = 200"
  by (simp_all add: source_constants_def)

text \<open>
  What the index test does guarantee: 0 below the lower edges, and 0 from one grid cell
  beyond the upper edges on.
\<close>

lemma getTerrainHeight_far_outside:
  assumes "valid_constants k"
    and "x < - HALF_TERRAIN_WIDTH k \<or> x \<ge> HALF_TERRAIN_WIDTH k + GRID_SIZE_X k \<or>
         z < - HALF_TERRAIN_DEPTH k \<or> z \<ge> HALF_TERRAIN_DEPTH k + GRID_SIZE_Z k"
  shows "getTerrainHeight k hm x z = 0"
proof -
  have gx: "0 < GRID_SIZE_X k" and gz: "0 < GRID_SIZE_Z k"
    using assms(1) by (simp_all add: valid_constants_def GRID_SIZE_X_def GRID_SIZE_Z_def)
  have wx: "TERRAIN_WIDTH k = real (TERRAIN_RESOLUTION k) * GRID_SIZE_X k"
    and wz: "TERRAIN_DEPTH k = real (TERRAIN_RESOLUTION k) * GRID_SIZE_Z k"
    using assms(1) by (simp_all add: valid_constants_def GRID_SIZE_X_def GRID_SIZE_Z_def)
  have lo: "\<lfloor>(v + h) / g\<rfloor> < 0" if "v < - h" "0 < g" for v h g :: real
  proof -
    have "(v + h) / g < 0" using that by (simp add: divide_neg_pos)
    then show ?thesis by linarith
  qed
  have hi: "\<lfloor>(v + n * g / 2) / g\<rfloor> \<ge> n + 1" if "v \<ge> n * g / 2 + g" "0 < g" for v g :: real and n :: int
  proof -
    have "(of_int n + 1) * g \<le> v + n * g / 2" using that by (simp add: algebra_simps)
    then have "of_int (n + 1) \<le> (v + n * g / 2) / g" using that(2) by (simp add: pos_le_divide_eq)
    then show ?thesis by (simp add: le_floor_iff)
  qed
  from assms(2) consider "x < - HALF_TERRAIN_WIDTH k" | "x \<ge> HALF_TERRAIN_WIDTH k + GRID_SIZE_X k"
    | "z < - HALF_TERRAIN_DEPTH k" | "z \<ge> HALF_TERRAIN_DEPTH k + GRID_SIZE_Z k" by blast
  then show ?thesis
  proof cases
    case 1
    from lo [OF this gx] show ?thesis by (simp add: getTerrainHeight_def grid_i_def Let_def)
  next
    case 2
    then have "x \<ge> int (TERRAIN_RESOLUTION k) * GRID_SIZE_X k / 2 + GRID_SIZE_X k"
      using wx by (simp add: HALF_TERRAIN_WIDTH_def)
    from hi [OF this gx] have "grid_i k x \<ge> int (TERRAIN_RESOLUTION k) + 1"
      using wx by (simp add: grid_i_def HALF_TERRAIN_WIDTH_def)
    then show ?thesis by (simp add: getTerrainHeight_def Let_def)
  next
    case 3
    from lo [OF this gz] show ?thesis by (simp add: getTerrainHeight_def grid_j_def Let_def)
  next
    case 4
    then have "z \<ge> int (TERRAIN_RESOLUTION k) * GRID_SIZE_Z k / 2 + GRID_SIZE_Z k"
      using wz by (simp add: HALF_TERRAIN_DEPTH_def)
    from hi [OF this gz] have "grid_j k z \<ge> int (TERRAIN_RESOLUTION k) + 1"
      using wz by (simp add: grid_j_def HALF_TERRAIN_DEPTH_def)
    then show ?thesis by (simp add: getTerrainHeight_def Let_def)
  qed
qed

lemma source_grid_303: "grid_i source_constants 303 = 100" "grid_j source_constants 0 = 50"
  by (simp_all add: grid_i_def grid_j_def HALF_TERRAIN_WIDTH_def HALF_TERRAIN_DEPTH_def
      GRID_SIZE_X_def GRID_SIZE_Z_def)

text \<open>
  C3. The height query is meant to return 0 for every world coordinate outside the
  terrain rectangle \<open>[-W/2, W/2] \<times> [-D/2, D/2]\<close>. The index test of
  \<^verbatim>\<open>getTerrainHeight\<close> accepts index \<open>TERRAIN_RESOLUTION\<close>, which
  \<^verbatim>\<open>Math.floor\<close> also yields for coordinates up to one grid cell beyond the upper
  edges. With the constants of the script, \<open>x = 303\<close> lies outside the terrain
  (\<open>W/2 = 300\<close>); after a wind tracer has eroded the flat terrain at \<open>(303, 0)\<close>, the
  query at that same point returns \<open>-EROSION_RATE\<close>, the elevation of edge cell
  (100, 50), and not 0.
\<close>

theorem getTerrainHeight_beyond_edge:
  "303 > HALF_TERRAIN_WIDTH source_constants \<and>
   getTerrainHeight source_constants
     (updateTerrainAtPoint source_constants 303 0 (- EROSION_RATE) (flat_heightmap source_constants))
     303 0 = - EROSION_RATE \<and>
   - EROSION_RATE \<noteq> 0"
proof -
  let ?k = source_constants
  have "cell (updateTerrainAtPoint ?k 303 0 (- EROSION_RATE) (flat_heightmap ?k)) 100 50 = - EROSION_RATE"
    by (simp add: cell_updateTerrainAtPoint_weight source_grid_303 in_grid_def cell_flat_heightmap
        grid_distance_def brush_weight_def)
  then show ?thesis
    by (simp add: getTerrainHeight_def source_grid_303 HALF_TERRAIN_WIDTH_def EROSION_RATE_def)
qed

subsection \<open>Wind input events\<close>

lemma windSpeed_fold_keydown: "0 \<le> windSpeed s \<Longrightarrow> 0 \<le> windSpeed (fold keydown ks s)"
proof (induction ks arbitrary: s)
  case Nil
  then show ?case by simp
next
  case (Cons c ks)
  have "0 \<le> windSpeed (keydown c s)"
    using Cons.prems by (cases c) (simp_all add: speedStep_def)
  then show ?case by (simp add: Cons.IH)
qed

lemma windDirection_fold_keydown:
  "windDirection (fold keydown ks s) =
     windDirection s + dirStep * (real (count_list ks ArrowRight) - real (count_list ks ArrowLeft))"
proof (induction ks arbitrary: s)
  case Nil
  then show ?case by simp
next
  case (Cons c ks)
  show ?case by (cases c) (simp_all add: Cons.IH algebra_simps)
qed

lemma run_keys: "run k (map KeyDown ks) s = Inr (fold keydown ks s)"
  by (induction ks arbitrary: s) simp_all

text \<open>
  C8 (as amended). Every wind-input event adds its fixed delta: \<open>ArrowUp\<close> adds 0.1 to
  the wind speed, \<open>ArrowDown\<close> subtracts 0.1 and clamps the result at 0, \<open>ArrowLeft\<close> and
  \<open>ArrowRight\<close> subtract and add \<open>pi / 36\<close> to the wind direction. After every sequence
  of such events the wind speed is at least 0 (when it was before), and the wind
  direction is the initial direction plus \<open>pi / 36\<close> times the number of \<open>ArrowRight\<close>
  minus the number of \<open>ArrowLeft\<close> events: the script does not wrap it.
\<close>

theorem wind_input_events:
  assumes "0 \<le> windSpeed s"
  shows "windSpeed (keydown ArrowUp s) = windSpeed s + 0.1 \<and>
     windSpeed (keydown ArrowDown s) = max 0 (windSpeed s - 0.1) \<and>
     windDirection (keydown ArrowLeft s) = windDirection s - pi / 36 \<and>
     windDirection (keydown ArrowRight s) = windDirection s + pi / 36 \<and>
     run k (map KeyDown ks) s = Inr (fold keydown ks s) \<and>
     0 \<le> windSpeed (fold keydown ks s) \<and>
     windDirection (fold keydown ks s) =
       windDirection s + pi / 36 * (real (count_list ks ArrowRight) - real (count_list ks ArrowLeft))"
  using windSpeed_fold_keydown [OF assms, of ks] windDirection_fold_keydown [of ks s]
  by (simp add: run_keys speedStep_def dirStep_def)

lemma initTerrain_fields [simp]:
  "isSimulating (initTerrain k s) = isSimulating s"
  "timeAccumulator (initTerrain k s) = timeAccumulator s"
  "windSpeed (initTerrain k s) = windSpeed s"
  "windDirection (initTerrain k s) = windDirection s"
  "windParticles (initTerrain k s) = windParticles s"
  "duneHeight (initTerrain k s) = duneHeight s"
  "duneCount (initTerrain k s) = duneCount s"
  "sandPool (initTerrain k s) = sandPool s"
  "sandAmount (initTerrain k s) = sandAmount s"
  by (simp_all add: initTerrain_def split: prod.splits)

lemma init_fields [simp]:
  "isSimulating (init k r) = False"
  "timeAccumulator (init k r) = 0"
  "windSpeed (init k r) = 0.5"
  "windDirection (init k r) = 45 * (pi / 180)"
  "windParticles (init k r) = map (new_wind_particle k r) [0..<WIND_POOL_SIZE]"
  "duneHeight (init k r) = 2"
  "duneCount (init k r) = 10"
  "sandPool (init k r) = replicate MAX_SAND_PARTICLES new_sand_particle"
  "sandAmount (init k r) = 3000"
  by (simp_all add: init_def)

lemma windSpeed_keydown:
  "windSpeed (keydown ArrowUp s) = windSpeed s + 0.1"
  "windSpeed (keydown ArrowDown s) = max 0 (windSpeed s - 0.1)"
  "windSpeed (keydown ArrowLeft s) = windSpeed s"
  "windSpeed (keydown ArrowRight s) = windSpeed s"
  by (simp_all add: speedStep_def)

theorem wind_input_events_witness:
  "0 \<le> windSpeed (init source_constants (\<lambda>n. 0)) \<and>
   run source_constants (map KeyDown [ArrowDown, ArrowDown, ArrowDown, ArrowDown, ArrowDown, ArrowDown, ArrowLeft])
     (init source_constants (\<lambda>n. 0)) =
     Inr (fold keydown [ArrowDown, ArrowDown, ArrowDown, ArrowDown, ArrowDown, ArrowDown, ArrowLeft]
       (init source_constants (\<lambda>n. 0))) \<and>
   windSpeed (fold keydown [ArrowDown, ArrowDown, ArrowDown, ArrowDown, ArrowDown, ArrowDown, ArrowLeft]
       (init source_constants (\<lambda>n. 0))) = 0 \<and>
   windDirection (fold keydown [ArrowDown, ArrowDown, ArrowDown, ArrowDown, ArrowDown, ArrowDown, ArrowLeft]
       (init source_constants (\<lambda>n. 0))) = 45 * (pi / 180) - pi / 36"
proof -
  have h: "0 \<le> windSpeed (init source_constants (\<lambda>n. 0))" by simp
  have "windSpeed (fold keydown [ArrowDown, ArrowDown, ArrowDown, ArrowDown, ArrowDown, ArrowDown, ArrowLeft]
       (init source_constants (\<lambda>n. 0))) = 0"
    by (simp add: windSpeed_keydown del: keydown.simps)
  with wind_input_events [OF h, of source_constants
      "[ArrowDown, ArrowDown, ArrowDown, ArrowDown, ArrowDown, ArrowDown, ArrowLeft]"] h
  show ?thesis by (simp del: keydown.simps)
qed

text \<open>
  C8 as stated fails: the direction is not kept within one revolution. From the initial
  direction of 45 degrees, 144 presses of \<open>ArrowRight\<close> lead to \<open>pi / 4 + 4 * pi\<close>.
\<close>

theorem wind_direction_not_wrapped:
  "windDirection (fold keydown (replicate 144 ArrowRight) (init source_constants (\<lambda>n. 0)))
     = 45 * (pi / 180) + 4 * pi \<and>
   2 * pi < windDirection (fold keydown (replicate 144 ArrowRight) (init source_constants (\<lambda>n. 0)))"
proof -
  let ?s = "init source_constants (\<lambda>n. 0)"
  have cnt: "count_list (replicate n ArrowRight) ArrowRight = n"
    "count_list (replicate n ArrowRight) ArrowLeft = 0" for n
    by (induction n) simp_all
  have "windDirection (fold keydown (replicate 144 ArrowRight) ?s)
     = windDirection ?s + dirStep * (real 144 - real 0)"
    by (simp only: windDirection_fold_keydown cnt)
  then have v: "windDirection (fold keydown (replicate 144 ArrowRight) ?s) = 45 * (pi / 180) + 4 * pi"
    by (simp add: dirStep_def)
  show ?thesis unfolding v using pi_gt_zero by simp
qed

subsection \<open>The pools keep their size and the heightmap its shape\<close>

lemma advance_0 [simp]: "advance 0 r = r"
  by (simp add: advance_def)

lemma length_spawnSandAt_loop [simp]: "length (fst (spawnSandAt_loop f ps)) = length ps"
  by (induction ps) (simp_all add: split_beta)

lemma spawnSandAt_fields [simp]:
  "length (sandPool (spawnSandAt k x z s)) = length (sandPool s)"
  "windParticles (spawnSandAt k x z s) = windParticles s"
  "heightmap (spawnSandAt k x z s) = heightmap s"
  by (simp_all add: spawnSandAt_def split_beta)

lemma length_windSpawn_loop [simp]:
  "length (fst (windSpawn_loop k s spawned r ps)) = length ps"
  by (induction ps arbitrary: spawned r) (simp_all add: split_beta)

lemma wind_step_fields [simp]:
  "length (sandPool (snd (wind_step k p s))) = length (sandPool s)"
  "wf_heightmap k (heightmap (snd (wind_step k p s))) = wf_heightmap k (heightmap s)"
  by (simp_all add: wind_step_def Let_def)

lemma windUpdate_loop_fields [simp]:
  "length (fst (windUpdate_loop k ps s)) = length ps"
  "length (sandPool (snd (windUpdate_loop k ps s))) = length (sandPool s)"
  "wf_heightmap k (heightmap (snd (windUpdate_loop k ps s))) = wf_heightmap k (heightmap s)"
  by (induction ps arbitrary: s) (simp_all add: split_beta)

lemma updateWindParticles_fields [simp]:
  "length (windParticles (updateWindParticles k s)) = length (windParticles s)"
  "length (sandPool (updateWindParticles k s)) = length (sandPool s)"
  "wf_heightmap k (heightmap (updateWindParticles k s)) = wf_heightmap k (heightmap s)"
  by (simp_all add: updateWindParticles_def split_beta)

lemma length_sandSpawn_loop [simp]:
  "length (fst (sandSpawn_loop k s spawned r ps)) = length ps"
  by (induction ps arbitrary: spawned r) (simp_all add: split_beta)

lemma wf_sand_step [simp]:
  "wf_heightmap k (snd (sand_step k dt p hm)) = wf_heightmap k hm"
  by (simp add: sand_step_def Let_def)

lemma sandPhysics_loop_fields [simp]:
  "length (fst (sandPhysics_loop k dt ps hm)) = length ps"
  "wf_heightmap k (snd (sandPhysics_loop k dt ps hm)) = wf_heightmap k hm"
  by (induction ps arbitrary: hm) (simp_all add: split_beta)

lemma updateSandParticles_fields [simp]:
  "length (sandPool (updateSandParticles k dt s)) = length (sandPool s)"
  "windParticles (updateSandParticles k dt s) = windParticles s"
  "wf_heightmap k (heightmap (updateSandParticles k dt s)) = wf_heightmap k (heightmap s)"
  by (simp_all add: updateSandParticles_def split_beta)

lemma wf_smoothTerrain [simp]: "wf_heightmap k (smoothTerrain k hm)"
  by (simp add: wf_heightmap_def smoothTerrain_def list_all_length del: upt_Suc)

lemma wf_initTerrain [simp]: "wf_heightmap k (heightmap (initTerrain k s))"
  by (simp add: initTerrain_def split_beta numeral_3_eq_3)

lemma resetSimulation_fields [simp]:
  "length (sandPool (resetSimulation k s)) = length (sandPool s)"
  "length (windParticles (resetSimulation k s)) = length (windParticles s)"
  "wf_heightmap k (heightmap (resetSimulation k s))"
  "active_count (sandPool (resetSimulation k s)) = 0"
  "active_count (windParticles (resetSimulation k s)) = 0"
  by (simp_all add: resetSimulation_def Let_def active_count_def hide_def filter_empty_conv)

lemma wf_init [simp]: "wf_heightmap k (heightmap (init k r))"
  by (simp add: init_def)

lemma wf_rectangular: "wf_heightmap k hm \<Longrightarrow> rectangular hm"
  by (cases hm) (auto simp: wf_heightmap_def rectangular_def list_all_iff)

lemma applyAvalanche_wf:
  assumes "wf_heightmap k hm"
  shows "\<exists>hm'. applyAvalanche hm = Inr hm' \<and> wf_heightmap k hm'"
proof -
  from assms obtain row0 rest where hm: "hm = row0 # rest"
    by (cases hm) (simp_all add: wf_heightmap_def)
  have "map length hm = replicate (length hm) (length row0)"
    using rectangular_shape [OF wf_rectangular [OF assms]] hm by simp
  from avalanche_rows_mass [OF this, of 1]
  have "map length (avalanche_rows (length hm) (length row0) 1 hm) = map length hm" by simp
  with assms show ?thesis
    by (simp add: applyAvalanche_def hm wf_heightmap_shape)
qed

lemma updateTerrain_inv:
  assumes "wf_heightmap k (heightmap s)"
  shows "\<exists>s'. updateTerrain s = Inr s' \<and> wf_heightmap k (heightmap s') \<and>
     sandPool s' = sandPool s \<and> windParticles s' = windParticles s"
  using applyAvalanche_wf [OF assms] by (auto simp: updateTerrain_def)

lemma animate_inv:
  assumes "wf_heightmap k (heightmap s)"
  shows "\<exists>s'. animate k dt s = Inr s' \<and> wf_heightmap k (heightmap s') \<and>
     length (sandPool s') = length (sandPool s) \<and>
     length (windParticles s') = length (windParticles s)"
proof (cases "isSimulating s")
  case False
  with assms show ?thesis by (simp add: animate_def)
next
  case True
  define s2 where "s2 = (if timeAccumulator s + dt \<ge> WIND_UPDATE_INTERVAL
     then (updateWindParticles k (s\<lparr>timeAccumulator := timeAccumulator s + dt\<rparr>))\<lparr>timeAccumulator := 0\<rparr>
     else s\<lparr>timeAccumulator := timeAccumulator s + dt\<rparr>)"
  define s3 where "s3 = updateSandParticles k dt s2"
  have a: "animate k dt s = updateTerrain s3"
    using True by (simp add: animate_def s3_def s2_def Let_def)
  have "wf_heightmap k (heightmap s3)" "length (sandPool s3) = length (sandPool s)"
    "length (windParticles s3) = length (windParticles s)"
    using assms by (simp_all add: s3_def s2_def)
  with updateTerrain_inv [of k s3] a show ?thesis by auto
qed

lemma handle_inv:
  assumes "wf_heightmap k (heightmap s)"
  shows "\<exists>s'. handle k e s = Inr s' \<and> wf_heightmap k (heightmap s') \<and>
     length (sandPool s') = length (sandPool s) \<and>
     length (windParticles s') = length (windParticles s)"
proof (cases e)
  case (KeyDown c)
  with assms show ?thesis by (cases c) simp_all
next
  case (Frame dt)
  with animate_inv [OF assms] show ?thesis by simp
qed (use assms in simp_all)

lemma run_inv:
  assumes "wf_heightmap k (heightmap s)"
  shows "\<exists>s'. run k es s = Inr s' \<and> wf_heightmap k (heightmap s') \<and>
     length (sandPool s') = length (sandPool s) \<and>
     length (windParticles s') = length (windParticles s)"
  using assms
proof (induction es arbitrary: s)
  case Nil
  then show ?case by simp
next
  case (Cons e es)
  from handle_inv [OF Cons.prems, of e] obtain s1 where
    s1: "handle k e s = Inr s1" "wf_heightmap k (heightmap s1)"
      "length (sandPool s1) = length (sandPool s)"
      "length (windParticles s1) = length (windParticles s)"
    by blast
  from Cons.IH [OF s1(2)] s1 show ?case by simp
qed

lemma active_count_le: "active_count pool \<le> length pool"
  by (simp add: active_count_def)

subsection \<open>Acquiring a slot: first fit, and nothing when the pool is full\<close>

lemma spawnSandAt_loop_full:
  "list_all visible ps \<Longrightarrow> spawnSandAt_loop f ps = (ps, 0)"
  by (induction ps) simp_all

lemma spawnSandAt_full: "list_all visible (sandPool s) \<Longrightarrow> spawnSandAt k x z s = s"
  by (simp add: spawnSandAt_def spawnSandAt_loop_full)

lemma windSpawn_loop_full:
  "list_all visible ps \<Longrightarrow> windSpawn_loop k s spawned r ps = (ps, r)"
  by (induction ps) simp_all

lemma sandSpawn_loop_full:
  "list_all visible ps \<Longrightarrow> sandSpawn_loop k s spawned r ps = (ps, r)"
  by (induction ps) simp_all




lemma visible_launch [simp]:
  "visible (launch_sand k s x z p)" "visible (launch_wind k s r p)" "visible (launch_grain k s r p)"
  by (simp_all add: launch_sand_def launch_wind_def launch_grain_def Let_def split_beta)



subsection \<open>Pool capacity\<close>

lemma run_append:
  "run k (es @ es') s = (case run k es s of Inl err \<Rightarrow> Inl err | Inr s1 \<Rightarrow> run k es' s1)"
  by (induction es arbitrary: s) (simp_all split: sum.splits)

lemma run_init:
  "\<exists>s'. run k es (init k r) = Inr s' \<and>
     length (sandPool s') = MAX_SAND_PARTICLES \<and> length (windParticles s') = WIND_POOL_SIZE"
  using run_inv [OF wf_init, of k es r] by auto

text \<open>
  C5. The number of active (visible) slots of a pool never exceeds the pool's capacity.
  Every run of events from \<^verbatim>\<open>init\<close> returns (no error is raised) in a state whose
  grain pool has \<open>MAX_SAND_PARTICLES\<close> slots and whose wind pool has the 100 slots
  \<^verbatim>\<open>init\<close> created, so the active counts are bounded by these capacities; each
  operation on its own (a spawn, a wind step, a grain step, a reset) keeps the number of
  slots of both pools, and a reset leaves no slot active. A spawn request that finds every
  slot active changes nothing: \<^verbatim>\<open>spawnSandAt\<close> returns the state as it was, and the
  spawn loops of the two update functions return the pool and the random sequence as
  they were.
\<close>

theorem pool_capacity_invariant:
  "(\<exists>s'. run k es (init k r) = Inr s' \<and>
       length (sandPool s') = MAX_SAND_PARTICLES \<and> length (windParticles s') = WIND_POOL_SIZE \<and>
       active_count (sandPool s') \<le> MAX_SAND_PARTICLES \<and>
       active_count (windParticles s') \<le> WIND_POOL_SIZE) \<and>
   (length (sandPool (spawnSandAt k x z s)) = length (sandPool s) \<and>
    length (windParticles (spawnSandAt k x z s)) = length (windParticles s)) \<and>
   (length (sandPool (updateWindParticles k s)) = length (sandPool s) \<and>
    length (windParticles (updateWindParticles k s)) = length (windParticles s)) \<and>
   (length (sandPool (updateSandParticles k dt s)) = length (sandPool s) \<and>
    length (windParticles (updateSandParticles k dt s)) = length (windParticles s)) \<and>
   (length (sandPool (resetSimulation k s)) = length (sandPool s) \<and>
    length (windParticles (resetSimulation k s)) = length (windParticles s) \<and>
    active_count (sandPool (resetSimulation k s)) = 0 \<and>
    active_count (windParticles (resetSimulation k s)) = 0) \<and>
   active_count (sandPool s) \<le> length (sandPool s) \<and>
   active_count (windParticles s) \<le> length (windParticles s) \<and>
   (list_all visible (sandPool s) \<longrightarrow>
      spawnSandAt k x z s = s \<and>
      sandSpawn_loop k s 0 (rand s) (sandPool s) = (sandPool s, rand s)) \<and>
   (list_all visible (windParticles s) \<longrightarrow>
      windSpawn_loop k s 0 (rand s) (windParticles s) = (windParticles s, rand s))"
proof -
  from run_init [of k es r] obtain s' where s': "run k es (init k r) = Inr s'"
    "length (sandPool s') = MAX_SAND_PARTICLES" "length (windParticles s') = WIND_POOL_SIZE"
    by blast
  have "active_count (sandPool s') \<le> MAX_SAND_PARTICLES"
    "active_count (windParticles s') \<le> WIND_POOL_SIZE"
    using active_count_le [of "sandPool s'"] active_count_le [of "windParticles s'"] s'(2,3)
    by simp_all
  with s' have 1: "\<exists>s'. run k es (init k r) = Inr s' \<and>
       length (sandPool s') = MAX_SAND_PARTICLES \<and> length (windParticles s') = WIND_POOL_SIZE \<and>
       active_count (sandPool s') \<le> MAX_SAND_PARTICLES \<and>
       active_count (windParticles s') \<le> WIND_POOL_SIZE"
    by blast
  have 2: "list_all visible (sandPool s) \<longrightarrow>
      spawnSandAt k x z s = s \<and>
      sandSpawn_loop k s 0 (rand s) (sandPool s) = (sandPool s, rand s)"
    by (simp add: spawnSandAt_full sandSpawn_loop_full)
  have 3: "list_all visible (windParticles s) \<longrightarrow>
      windSpawn_loop k s 0 (rand s) (windParticles s) = (windParticles s, rand s)"
    by (simp add: windSpawn_loop_full)
  from 1 2 3 show ?thesis
    by (simp add: active_count_le)
qed

theorem pool_capacity_invariant_witness:
  "(let on = new_sand_particle\<lparr>visible := True\<rparr>;
        k = scenario_constants;
        full = (init k (\<lambda>n. 0))\<lparr>sandPool := [on, on], windParticles := [on, on, on]\<rparr>
    in (list_all visible (sandPool full) \<and>
        spawnSandAt k 1 2 full = full \<and>
        sandSpawn_loop k full 0 (rand full) (sandPool full) = (sandPool full, rand full)) \<and>
       (list_all visible (windParticles full) \<and>
        windSpawn_loop k full 0 (rand full) (windParticles full) = (windParticles full, rand full)) \<and>
       active_count (sandPool full) = 2 \<and> active_count (windParticles full) = 3 \<and>
       (\<exists>s'. run k [StartClick, Frame 0.2, KeyDown ArrowUp, Frame 0.2, ResetClick] (init k (\<lambda>n. 0)) = Inr s' \<and>
          length (sandPool s') = 1000 \<and> length (windParticles s') = 100 \<and>
          active_count (sandPool s') \<le> 1000 \<and> active_count (windParticles s') \<le> 100))"
proof -
  define on where "on = new_sand_particle\<lparr>visible := True\<rparr>"
  define k where "k = scenario_constants"
  define full where "full = (init k (\<lambda>n. 0))\<lparr>sandPool := [on, on], windParticles := [on, on, on]\<rparr>"
  have f: "list_all visible (sandPool full)" "list_all visible (windParticles full)"
    "active_count (sandPool full) = 2" "active_count (windParticles full) = 3"
    by (simp_all add: full_def on_def active_count_def)
  note T = pool_capacity_invariant [of k "[StartClick, Frame 0.2, KeyDown ArrowUp, Frame 0.2, ResetClick]"
      "\<lambda>n. 0" 1 2 full 0]
  note Tr = T [THEN conjunct1, unfolded MAX_SAND_PARTICLES_def WIND_POOL_SIZE_def]
  note Ts = T [THEN conjunct2, THEN conjunct2, THEN conjunct2, THEN conjunct2, THEN conjunct2,
      THEN conjunct2, THEN conjunct2, THEN conjunct1, rule_format, OF f(1)]
  note Tw = T [THEN conjunct2, THEN conjunct2, THEN conjunct2, THEN conjunct2, THEN conjunct2,
      THEN conjunct2, THEN conjunct2, THEN conjunct2, rule_format, OF f(2)]
  from f Tr Ts Tw
  have "(list_all visible (sandPool full) \<and>
        spawnSandAt k 1 2 full = full \<and>
        sandSpawn_loop k full 0 (rand full) (sandPool full) = (sandPool full, rand full)) \<and>
       (list_all visible (windParticles full) \<and>
        windSpawn_loop k full 0 (rand full) (windParticles full) = (windParticles full, rand full)) \<and>
       active_count (sandPool full) = 2 \<and> active_count (windParticles full) = 3 \<and>
       (\<exists>s'. run k [StartClick, Frame 0.2, KeyDown ArrowUp, Frame 0.2, ResetClick] (init k (\<lambda>n. 0)) = Inr s' \<and>
          length (sandPool s') = 1000 \<and> length (windParticles s') = 100 \<and>
          active_count (sandPool s') \<le> 1000 \<and> active_count (windParticles s') \<le> 100)"
    by blast
  then show ?thesis
    unfolding Let_def on_def [symmetric] k_def [symmetric] full_def [symmetric] .
qed

subsection \<open>The grain pool and sandAmount\<close>

text \<open>
  What the script does with \<open>sandAmount\<close>: the slider handler stores the value, and the
  grain pool keeps the \<open>MAX_SAND_PARTICLES\<close> slots \<^verbatim>\<open>init\<close> gave it, whatever events
  came before.
\<close>

lemma sandPool_after_SandAmountInput:
  "\<exists>s'. run k (es @ [SandAmountInput n]) (init k r) = Inr s' \<and>
     sandAmount s' = n \<and> length (sandPool s') = MAX_SAND_PARTICLES"
proof -
  from run_init [of k es r] obtain s1 where s1: "run k es (init k r) = Inr s1"
    "length (sandPool s1) = MAX_SAND_PARTICLES"
    by blast
  then have "run k (es @ [SandAmountInput n]) (init k r) = Inr (s1\<lparr>sandAmount := n\<rparr>)"
    by (simp add: run_append)
  with s1(2) show ?thesis by simp
qed

text \<open>
  C7. The capacity of the grain pool is meant to be \<open>sandAmount\<close>: the script declares
  the variable as \<^verbatim>\<open>let sandAmount = 3000; // Total number of sand grains\<close> and its
  slider (1000 to 5000) writes it, as the sliders of \<open>duneHeight\<close> and \<open>duneCount\<close>
  write theirs. Unlike those two, which \<^verbatim>\<open>initTerrain\<close> reads, \<open>sandAmount\<close> is
  read nowhere, and \<^verbatim>\<open>init\<close> sizes the pool with \<open>MAX_SAND_PARTICLES\<close>. With the
  constants of the script the initial state has \<open>sandAmount = 3000\<close> and a pool of 1000
  slots, and after the slider input 5000 the pool still has 1000 slots.
\<close>

theorem sand_pool_capacity_not_sandAmount:
  "sandAmount (init source_constants (\<lambda>n. 0)) = 3000 \<and>
   length (sandPool (init source_constants (\<lambda>n. 0))) = 1000 \<and>
   int (length (sandPool (init source_constants (\<lambda>n. 0)))) \<noteq>
     sandAmount (init source_constants (\<lambda>n. 0)) \<and>
   (\<exists>s'. run source_constants [SandAmountInput 5000] (init source_constants (\<lambda>n. 0)) = Inr s' \<and>
      sandAmount s' = 5000 \<and> length (sandPool s') = 1000)"
proof -
  have "\<exists>s'. run source_constants [SandAmountInput 5000] (init source_constants (\<lambda>n. 0)) = Inr s' \<and>
      sandAmount s' = 5000 \<and> length (sandPool s') = 1000"
    using sandPool_after_SandAmountInput [of source_constants "[]" 5000 "\<lambda>n. 0"]
    by (simp add: MAX_SAND_PARTICLES_def)
  then show ?thesis by (simp add: MAX_SAND_PARTICLES_def)
qed

subsection \<open>Grains: deposit on ground contact, no deposit on expiry\<close>

lemma sandPhysics_loop_append:
  "sandPhysics_loop k dt (ps @ qs) hm =
     (fst (sandPhysics_loop k dt ps hm) @
        fst (sandPhysics_loop k dt qs (snd (sandPhysics_loop k dt ps hm))),
      snd (sandPhysics_loop k dt qs (snd (sandPhysics_loop k dt ps hm))))"
  by (induction ps arbitrary: hm) (simp_all add: split_beta)

lemma sandPhysics_loop_visible:
  "visible p \<Longrightarrow>
   sandPhysics_loop k dt (p # qs) hm =
     (fst (sand_step k dt p hm) # fst (sandPhysics_loop k dt qs (snd (sand_step k dt p hm))),
      snd (sandPhysics_loop k dt qs (snd (sand_step k dt p hm))))"
  by (simp add: split_beta)

lemma sandPhysics_loop_nth:
  assumes "n < length ps" and "visible (ps ! n)"
  shows "fst (sandPhysics_loop k dt ps hm) ! n =
       fst (sand_step k dt (ps ! n) (snd (sandPhysics_loop k dt (take n ps) hm)))"
    and "snd (sandPhysics_loop k dt ps hm) =
       snd (sandPhysics_loop k dt (drop (Suc n) ps)
         (snd (sand_step k dt (ps ! n) (snd (sandPhysics_loop k dt (take n ps) hm)))))"
proof -
  have ps: "ps = take n ps @ ps ! n # drop (Suc n) ps"
    using assms(1) by (rule id_take_nth_drop)
  have len: "length (fst (sandPhysics_loop k dt (take n ps) hm)) = n"
    using assms(1) by simp
  have L: "sandPhysics_loop k dt ps hm =
     sandPhysics_loop k dt (take n ps @ ps ! n # drop (Suc n) ps) hm"
    using ps by simp
  show "fst (sandPhysics_loop k dt ps hm) ! n =
       fst (sand_step k dt (ps ! n) (snd (sandPhysics_loop k dt (take n ps) hm)))"
    unfolding L sandPhysics_loop_append sandPhysics_loop_visible [OF assms(2)]
    using len by (simp add: nth_append)
  show "snd (sandPhysics_loop k dt ps hm) =
       snd (sandPhysics_loop k dt (drop (Suc n) ps)
         (snd (sand_step k dt (ps ! n) (snd (sandPhysics_loop k dt (take n ps) hm)))))"
    unfolding L sandPhysics_loop_append sandPhysics_loop_visible [OF assms(2)]
    by simp
qed

lemma visible_integrate_grain [simp]: "visible (integrate_grain dt p) = visible p"
  by (simp add: integrate_grain_def Let_def)

text \<open>
  C4. In one call of \<^verbatim>\<open>updateSandParticles\<close>, take any grain that is active when the
  physics loop starts (slot \<open>n\<close> of the pool after the spawn loop), let \<open>q\<close> be the
  grain after integration and \<open>hm1\<close> the heightmap at the moment the loop reaches it.
  If \<open>q\<close> is at or below the terrain height queried at its \<open>(x, z)\<close>, the heightmap
  handed on to the remaining grains is \<open>hm1\<close> after exactly one
  \<^verbatim>\<open>updateTerrainAtPoint\<close> at \<open>(x, z)\<close> with the positive \<open>SAND_PARTICLE_SIZE\<close>,
  and the grain is deactivated, whatever its bounds and life. Otherwise, if it is outside
  the bounds widened by 10 or its life is at most 0, it is deactivated and the heightmap
  handed on is \<open>hm1\<close> itself. Otherwise it stays active and the heightmap is not touched.
\<close>

theorem grain_deposit_or_expire:
  assumes "sandSpawn_loop k s 0 (rand s) (sandPool s) = (pool1, r1)"
    and "n < length pool1" and "visible (pool1 ! n)"
  shows "let q = integrate_grain dt (pool1 ! n);
             hm1 = snd (sandPhysics_loop k dt (take n pool1) (heightmap s));
             rest = drop (Suc n) pool1;
             s' = updateSandParticles k dt s
         in (pos_y q \<le> getTerrainHeight k hm1 (pos_x q) (pos_z q) \<longrightarrow>
               sandPool s' ! n = q\<lparr>visible := False\<rparr> \<and>
               heightmap s' =
                 snd (sandPhysics_loop k dt rest
                   (updateTerrainAtPoint k (pos_x q) (pos_z q) SAND_PARTICLE_SIZE hm1))) \<and>
            (\<not> pos_y q \<le> getTerrainHeight k hm1 (pos_x q) (pos_z q) \<and> grain_out_or_expired k q \<longrightarrow>
               sandPool s' ! n = q\<lparr>visible := False\<rparr> \<and>
               heightmap s' = snd (sandPhysics_loop k dt rest hm1)) \<and>
            (\<not> pos_y q \<le> getTerrainHeight k hm1 (pos_x q) (pos_z q) \<and> \<not> grain_out_or_expired k q \<longrightarrow>
               sandPool s' ! n = q \<and> visible q \<and>
               heightmap s' = snd (sandPhysics_loop k dt rest hm1)) \<and>
            0 < SAND_PARTICLE_SIZE"
proof -
  define q where "q = integrate_grain dt (pool1 ! n)"
  define hm1 where "hm1 = snd (sandPhysics_loop k dt (take n pool1) (heightmap s))"
  have pool: "sandPool (updateSandParticles k dt s) ! n = fst (sand_step k dt (pool1 ! n) hm1)"
    and hm: "heightmap (updateSandParticles k dt s) =
      snd (sandPhysics_loop k dt (drop (Suc n) pool1) (snd (sand_step k dt (pool1 ! n) hm1)))"
    using sandPhysics_loop_nth [OF assms(2,3), of k dt "heightmap s"]
    by (simp_all add: updateSandParticles_def assms(1) split_beta hm1_def)
  have 1: "sand_step k dt (pool1 ! n) hm1 =
      (q\<lparr>visible := False\<rparr>, updateTerrainAtPoint k (pos_x q) (pos_z q) SAND_PARTICLE_SIZE hm1)"
    if "pos_y q \<le> getTerrainHeight k hm1 (pos_x q) (pos_z q)"
    using that by (simp add: sand_step_def Let_def q_def)
  have 2: "sand_step k dt (pool1 ! n) hm1 = (q\<lparr>visible := False\<rparr>, hm1)"
    if "\<not> pos_y q \<le> getTerrainHeight k hm1 (pos_x q) (pos_z q)" "grain_out_or_expired k q"
    using that by (simp add: sand_step_def Let_def q_def)
  have 3: "sand_step k dt (pool1 ! n) hm1 = (q, hm1)"
    if "\<not> pos_y q \<le> getTerrainHeight k hm1 (pos_x q) (pos_z q)" "\<not> grain_out_or_expired k q"
    using that by (simp add: sand_step_def Let_def q_def)
  have v: "visible q" using assms(3) by (simp add: q_def)
  have "(pos_y q \<le> getTerrainHeight k hm1 (pos_x q) (pos_z q) \<longrightarrow>
               sandPool (updateSandParticles k dt s) ! n = q\<lparr>visible := False\<rparr> \<and>
               heightmap (updateSandParticles k dt s) =
                 snd (sandPhysics_loop k dt (drop (Suc n) pool1)
                   (updateTerrainAtPoint k (pos_x q) (pos_z q) SAND_PARTICLE_SIZE hm1))) \<and>
            (\<not> pos_y q \<le> getTerrainHeight k hm1 (pos_x q) (pos_z q) \<and> grain_out_or_expired k q \<longrightarrow>
               sandPool (updateSandParticles k dt s) ! n = q\<lparr>visible := False\<rparr> \<and>
               heightmap (updateSandParticles k dt s) = snd (sandPhysics_loop k dt (drop (Suc n) pool1) hm1)) \<and>
            (\<not> pos_y q \<le> getTerrainHeight k hm1 (pos_x q) (pos_z q) \<and> \<not> grain_out_or_expired k q \<longrightarrow>
               sandPool (updateSandParticles k dt s) ! n = q \<and> visible q \<and>
               heightmap (updateSandParticles k dt s) = snd (sandPhysics_loop k dt (drop (Suc n) pool1) hm1)) \<and>
            0 < SAND_PARTICLE_SIZE"
    using 1 2 3 v by (auto simp: pool hm SAND_PARTICLE_SIZE_def)
  then show ?thesis
    unfolding Let_def q_def hm1_def .
qed

theorem grain_deposit_or_expire_witness:
  "(let k = scenario_constants;
        g1 = \<lparr>pos_x = 0, pos_y = 0.05, pos_z = 0, vel_x = 0, vel_y = - 1, vel_z = 0,
               life = 5, visible = True\<rparr>;
        g2 = \<lparr>pos_x = 0, pos_y = 5, pos_z = 0, vel_x = 0, vel_y = 0, vel_z = 0,
               life = 0.05, visible = True\<rparr>;
        s = (init k (\<lambda>n. 0))\<lparr>sandPool := [g1, g2], heightmap := flat_heightmap k\<rparr>;
        q1 = integrate_grain 0.1 g1;
        q2 = integrate_grain 0.1 g2;
        hm1 = updateTerrainAtPoint k 0 0 SAND_PARTICLE_SIZE (flat_heightmap k);
        s' = updateSandParticles k 0.1 s
    in sandSpawn_loop k s 0 (rand s) (sandPool s) = ([g1, g2], rand s) \<and>
       visible g1 \<and> visible g2 \<and>
       pos_y q1 \<le> getTerrainHeight k (flat_heightmap k) (pos_x q1) (pos_z q1) \<and>
       sandPool s' ! 0 = q1\<lparr>visible := False\<rparr> \<and>
       \<not> pos_y q2 \<le> getTerrainHeight k hm1 (pos_x q2) (pos_z q2) \<and>
       grain_out_or_expired k q2 \<and>
       sandPool s' ! 1 = q2\<lparr>visible := False\<rparr> \<and>
       heightmap s' = hm1 \<and> cell hm1 2 2 = 0.1)"
proof -
  define k where "k = scenario_constants"
  define g1 where "g1 = \<lparr>pos_x = 0, pos_y = 0.05, pos_z = 0, vel_x = 0, vel_y = - 1, vel_z = 0,
               life = 5, visible = True\<rparr>"
  define g2 where "g2 = \<lparr>pos_x = 0, pos_y = 5, pos_z = 0, vel_x = 0, vel_y = 0, vel_z = 0,
               life = 0.05, visible = True\<rparr>"
  define s where "s = (init k (\<lambda>n. 0))\<lparr>sandPool := [g1, g2], heightmap := flat_heightmap k\<rparr>"
  define q1 where "q1 = integrate_grain 0.1 g1"
  define q2 where "q2 = integrate_grain 0.1 g2"
  define hm1 where "hm1 = updateTerrainAtPoint k 0 0 SAND_PARTICLE_SIZE (flat_heightmap k)"
  define s' where "s' = updateSandParticles k 0.1 s"
  have v: "visible g1" "visible g2" by (simp_all add: g1_def g2_def)
  have sp: "sandSpawn_loop k s 0 (rand s) (sandPool s) = ([g1, g2], rand s)"
    using v by (simp add: s_def sandSpawn_loop_full)
  have q1: "pos_x q1 = 0" "pos_z q1 = 0" "pos_y q1 = - 0.05"
    by (simp_all add: q1_def g1_def integrate_grain_def Let_def)
  have q2: "pos_x q2 = 0" "pos_z q2 = 0" "pos_y q2 = 5" "life q2 = - 0.05"
    by (simp_all add: q2_def g2_def integrate_grain_def Let_def)
  have c: "cell hm1 2 2 = 0.1"
    by (simp add: hm1_def k_def cell_updateTerrainAtPoint_weight scenario_centre in_grid_def
        cell_flat_heightmap grid_distance_def scenario_weights SAND_PARTICLE_SIZE_def)
  have t0: "getTerrainHeight k (flat_heightmap k) 0 0 = 0"
    by (simp add: getTerrainHeight_def k_def scenario_centre cell_flat_heightmap)
  have t1: "getTerrainHeight k hm1 0 0 = 0.1"
    using c by (simp add: getTerrainHeight_def k_def scenario_centre)
  have d1: "pos_y q1 \<le> getTerrainHeight k (flat_heightmap k) (pos_x q1) (pos_z q1)"
    by (simp add: q1 t0)
  have d2: "\<not> pos_y q2 \<le> getTerrainHeight k hm1 (pos_x q2) (pos_z q2)"
    by (simp add: q2 t1)
  have e2: "grain_out_or_expired k q2"
    by (simp add: grain_out_or_expired_def q2)
  have st1: "sand_step k 0.1 g1 (flat_heightmap k) = (q1\<lparr>visible := False\<rparr>, hm1)"
    using d1 by (simp add: sand_step_def Let_def q1_def [symmetric] hm1_def q1(1,2))
  have h1: "snd (sandPhysics_loop k 0.1 (take 1 [g1, g2]) (heightmap s)) = hm1"
    using v st1 by (simp add: s_def)
  have h0: "snd (sandPhysics_loop k 0.1 (take 0 [g1, g2]) (heightmap s)) = flat_heightmap k"
    by (simp add: s_def)
  have n0: "0 < length [g1, g2]" "visible ([g1, g2] ! 0)"
    and n1: "1 < length [g1, g2]" "visible ([g1, g2] ! 1)"
    using v by simp_all
  note T0 = grain_deposit_or_expire [OF sp n0, of "0.1", unfolded Let_def, THEN conjunct1]
  note T1 = grain_deposit_or_expire [OF sp n1, of "0.1", unfolded Let_def, THEN conjunct2,
      THEN conjunct1]
  have "sandPool s' ! 0 = q1\<lparr>visible := False\<rparr>"
    using T0 d1 h0 by (simp add: s'_def q1_def)
  moreover have "sandPool s' ! 1 = q2\<lparr>visible := False\<rparr>" "heightmap s' = hm1"
    using T1 d2 e2 h1 by (simp_all add: s'_def q2_def)
  ultimately have "sandSpawn_loop k s 0 (rand s) (sandPool s) = ([g1, g2], rand s) \<and>
       visible g1 \<and> visible g2 \<and>
       pos_y q1 \<le> getTerrainHeight k (flat_heightmap k) (pos_x q1) (pos_z q1) \<and>
       sandPool s' ! 0 = q1\<lparr>visible := False\<rparr> \<and>
       \<not> pos_y q2 \<le> getTerrainHeight k hm1 (pos_x q2) (pos_z q2) \<and>
       grain_out_or_expired k q2 \<and>
       sandPool s' ! 1 = q2\<lparr>visible := False\<rparr> \<and>
       heightmap s' = hm1 \<and> cell hm1 2 2 = 0.1"
    using sp v d1 d2 e2 c by blast
  then show ?thesis
    unfolding Let_def k_def [symmetric] g1_def [symmetric] g2_def [symmetric] s_def [symmetric]
      q1_def [symmetric] q2_def [symmetric] hm1_def [symmetric] s'_def [symmetric] .
qed

end
